theory Spec2Isabelle
  imports Complex_Main "HOL-Library.Product_Lexorder" "HOL-Library.Multiset" "HOL-Library.Log_Nat"
begin

section \<open>Python values, strings and exceptions\<close>

text \<open>
  A Python \<open>str\<close> is modelled as a \<open>string\<close> whose characters are the code points
  below 256, so \<open>length\<close> counts code points as \<open>len\<close> does. A Python
  \<open>float\<close> is a finite IEEE 754 double, given as the rational that is its exact
  value; infinities and NaN are not modelled. Every exception class the code can meet
  is a constructor of
  \<open>error\<close> carrying the message \<open>str(e)\<close>; a function that may raise returns
  \<open>error + 'a\<close>.
\<close>

datatype error =
    ValueError string
  | TypeError string
  | AttributeError string
  | IndexError string
  | KeyError string
  | OverflowError string
  | Timeout string
  | ConnectionError string
  | RequestException string
  | DatabaseError string
  | ValidationError string
  | CityNotFoundError string
  | WeatherDataNotFoundError string
  | ExternalAPIError string
  | HTTPException nat string

fun str_error :: "error \<Rightarrow> string" where
  "str_error (ValueError m) = m"
| "str_error (TypeError m) = m"
| "str_error (AttributeError m) = m"
| "str_error (IndexError m) = m"
| "str_error (KeyError m) = m"
| "str_error (OverflowError m) = m"
| "str_error (Timeout m) = m"
| "str_error (ConnectionError m) = m"
| "str_error (RequestException m) = m"
| "str_error (DatabaseError m) = m"
| "str_error (ValidationError m) = m"
| "str_error (CityNotFoundError m) = m"
| "str_error (WeatherDataNotFoundError m) = m"
| "str_error (ExternalAPIError m) = m"
| "str_error (HTTPException s m) = m"

datatype py_value = PyNone | PyBool bool | PyInt int | PyFloat rat | PyStr string

text \<open>\<open>isinstance(v, int)\<close> together with the integer it denotes: \<open>bool\<close> is a
  subclass of \<open>int\<close> in Python.\<close>

fun as_int :: "py_value \<Rightarrow> int option" where
  "as_int (PyInt i) = Some i"
| "as_int (PyBool b) = Some (if b then 1 else 0)"
| "as_int v = None"

definition digit_char :: "nat \<Rightarrow> char" where
  "digit_char n = char_of (48 + n)"

function str_nat :: "nat \<Rightarrow> string" where
  "str_nat n = (if n < 10 then [digit_char n] else str_nat (n div 10) @ [digit_char (n mod 10)])"
  by pat_completeness auto
termination
  by (relation "measure id") auto

declare str_nat.simps [simp del]

definition str_int :: "int \<Rightarrow> string" where
  "str_int i = (if i < 0 then CHR ''-'' # str_nat (nat (- i)) else str_nat (nat i))"

text \<open>\<open>'%0wd' % n\<close>: decimal digits, padded with zeros on the left to width \<open>w\<close>.\<close>

definition zero_pad :: "nat \<Rightarrow> nat \<Rightarrow> string" where
  "zero_pad w n = replicate (w - length (str_nat n)) CHR ''0'' @ str_nat n"

definition code_point :: "char \<Rightarrow> nat" where
  "code_point c = of_char c"

text \<open>\<open>str.isspace\<close> on one code point below 256; \<open>str.strip()\<close> and the regular
  expression class \<open>\s\<close> both use it.\<close>

definition isspace :: "char \<Rightarrow> bool" where
  "isspace c = (let n = code_point c in
     (9 \<le> n \<and> n \<le> 13) \<or> (28 \<le> n \<and> n \<le> 32) \<or> n = 133 \<or> n = 160)"

definition strip :: "string \<Rightarrow> string" where
  "strip s = rev (dropWhile isspace (rev (dropWhile isspace s)))"

definition is_ascii_letter :: "char \<Rightarrow> bool" where
  "is_ascii_letter c = (let n = code_point c in
     (97 \<le> n \<and> n \<le> 122) \<or> (65 \<le> n \<and> n \<le> 90))"

definition is_digit :: "char \<Rightarrow> bool" where
  "is_digit c = (let n = code_point c in 48 \<le> n \<and> n \<le> 57)"

definition digit_val :: "char \<Rightarrow> nat" where
  "digit_val c = code_point c - 48"

section \<open>Dates and times\<close>

text \<open>A naive \<open>datetime\<close> with the fields Python gives it. Comparison is the
  comparison of the field tuples.\<close>

record datetime =
  year :: nat
  month :: nat
  day :: nat
  hour :: nat
  minute :: nat
  second :: nat
  microsecond :: nat

definition dt_tuple :: "datetime \<Rightarrow> nat \<times> nat \<times> nat \<times> nat \<times> nat \<times> nat \<times> nat" where
  "dt_tuple d = (year d, month d, day d, hour d, minute d, second d, microsecond d)"

definition dt_le :: "datetime \<Rightarrow> datetime \<Rightarrow> bool" where
  "dt_le a b = (dt_tuple a \<le> dt_tuple b)"

definition mk_datetime :: "nat \<Rightarrow> nat \<Rightarrow> nat \<Rightarrow> nat \<Rightarrow> nat \<Rightarrow> nat \<Rightarrow> nat \<Rightarrow> datetime" where
  "mk_datetime y mo d h mi s us =
     \<lparr>year = y, month = mo, day = d, hour = h, minute = mi, second = s, microsecond = us\<rparr>"

text \<open>The proleptic Gregorian calendar arithmetic behind \<open>datetime - timedelta\<close>.\<close>

definition is_leap :: "nat \<Rightarrow> bool" where
  "is_leap y = (y mod 4 = 0 \<and> (y mod 100 \<noteq> 0 \<or> y mod 400 = 0))"

definition DAYS_IN_MONTH :: "nat list" where
  "DAYS_IN_MONTH = [0, 31, 28, 31, 30, 31, 30, 31, 31, 30, 31, 30, 31]"



definition days_in_month :: "nat \<Rightarrow> nat \<Rightarrow> nat" where
  "days_in_month y m = (if m = 2 \<and> is_leap y then 29 else DAYS_IN_MONTH ! m)"






text \<open>\<open>strftime\<close> with the three formats the code uses, for years from 1000 on
  (the padding of smaller years depends on the platform's C library).\<close>

definition strftime_date :: "datetime \<Rightarrow> string" where
  "strftime_date d = zero_pad 4 (year d) @ ''-'' @ zero_pad 2 (month d) @ ''-'' @ zero_pad 2 (day d)"

definition strftime_datetime :: "datetime \<Rightarrow> string" where
  "strftime_datetime d =
     strftime_date d @ '' '' @ zero_pad 2 (hour d) @ '':'' @ zero_pad 2 (minute d) @ '':''
       @ zero_pad 2 (second d)"

text \<open>\<open>datetime.strptime(s, "%Y-%m-%d")\<close>. The format compiles to the regular
  expression \<open>(\d\d\d\d)-(1[0-2]|0[1-9]|[1-9])-(3[01]|[12]\d|0[1-9]|[1-9]| [1-9])\<close>,
  matched at the start of \<open>s\<close>; text left over after the match, a year of 0 and a day
  the month does not have all raise \<open>ValueError\<close>. The alternatives are tried in
  order; a month alternative that matches is always the one the whole match uses.\<close>

fun parse_year :: "string \<Rightarrow> (nat \<times> string) option" where
  "parse_year (a # b # c # d # rest) =
     (if is_digit a \<and> is_digit b \<and> is_digit c \<and> is_digit d
      then Some (digit_val a * 1000 + digit_val b * 100 + digit_val c * 10 + digit_val d, rest)
      else None)"
| "parse_year s = None"

fun expect_dash :: "string \<Rightarrow> string option" where
  "expect_dash (c # rest) = (if c = CHR ''-'' then Some rest else None)"
| "expect_dash [] = None"

definition parse_month :: "string \<Rightarrow> (nat \<times> string) option" where
  "parse_month s =
     (case s of
        a # b # rest \<Rightarrow>
          if a = CHR ''1'' \<and> b \<in> set ''012'' then Some (10 + digit_val b, rest)
          else if a = CHR ''0'' \<and> is_digit b \<and> b \<noteq> CHR ''0'' then Some (digit_val b, rest)
          else if is_digit a \<and> a \<noteq> CHR ''0'' then Some (digit_val a, b # rest)
          else None
      | [a] \<Rightarrow> if is_digit a \<and> a \<noteq> CHR ''0'' then Some (digit_val a, []) else None
      | [] \<Rightarrow> None)"

definition parse_day :: "string \<Rightarrow> (nat \<times> string) option" where
  "parse_day s =
     (case s of
        a # b # rest \<Rightarrow>
          if a = CHR ''3'' \<and> b \<in> set ''01'' then Some (30 + digit_val b, rest)
          else if a \<in> set ''12'' \<and> is_digit b then Some (digit_val a * 10 + digit_val b, rest)
          else if a = CHR ''0'' \<and> is_digit b \<and> b \<noteq> CHR ''0'' then Some (digit_val b, rest)
          else if is_digit a \<and> a \<noteq> CHR ''0'' then Some (digit_val a, b # rest)
          else if a = CHR '' '' \<and> is_digit b \<and> b \<noteq> CHR ''0'' then Some (digit_val b, rest)
          else None
      | [a] \<Rightarrow> if is_digit a \<and> a \<noteq> CHR ''0'' then Some (digit_val a, []) else None
      | [] \<Rightarrow> None)"

definition strptime_ymd :: "string \<Rightarrow> error + datetime" where
  "strptime_ymd s =
     (case parse_year s of
        None \<Rightarrow> Inl (ValueError ''time data does not match format'')
      | Some (y, s1) \<Rightarrow>
     (case expect_dash s1 of
        None \<Rightarrow> Inl (ValueError ''time data does not match format'')
      | Some s2 \<Rightarrow>
     (case parse_month s2 of
        None \<Rightarrow> Inl (ValueError ''time data does not match format'')
      | Some (m, s3) \<Rightarrow>
     (case expect_dash s3 of
        None \<Rightarrow> Inl (ValueError ''time data does not match format'')
      | Some s4 \<Rightarrow>
     (case parse_day s4 of
        None \<Rightarrow> Inl (ValueError ''time data does not match format'')
      | Some (d, s5) \<Rightarrow>
          if s5 \<noteq> [] then Inl (ValueError ''unconverted data remains'')
          else if y < 1 then Inl (ValueError ''year is out of range'')
          else if d > days_in_month y m then Inl (ValueError ''day is out of range for month'')
          else Inr (mk_datetime y m d 0 0 0 0))))))"

section \<open>Input validation (app/utils/validation.py)\<close>

definition city_name_char :: "char \<Rightarrow> bool" where
  "city_name_char c = (is_ascii_letter c \<or> isspace c \<or> c = CHR ''-'' \<or> c = CHR 0x27)"

text \<open>\<open>re.match(r"^[a-zA-Z\s\-']+$", city)\<close>: one or more characters of the class
  up to the end of the string (a final newline is itself in the class).\<close>

definition city_name_regex :: "string \<Rightarrow> bool" where
  "city_name_regex s = (s \<noteq> [] \<and> list_all city_name_char s)"

definition validate_city_name :: "string \<Rightarrow> error + string" where
  "validate_city_name city =
     (if city = [] then Inl (ValueError ''City name cannot be empty'')
      else let city = strip city in
        if length city < 2 then Inl (ValueError ''City name must be at least 2 characters'')
        else if length city > 100 then Inl (ValueError ''City name must be less than 100 characters'')
        else if \<not> city_name_regex city then Inl (ValueError ''City name contains invalid characters'')
        else Inr city)"

definition validate_date_format :: "string \<Rightarrow> error + datetime" where
  "validate_date_format date_str =
     (if date_str = [] then Inl (ValueError ''Date cannot be empty'')
      else case strptime_ymd date_str of
             Inr dt \<Rightarrow> Inr dt
           | Inl (ValueError m) \<Rightarrow> Inl (ValueError ''Invalid date format. Use YYYY-MM-DD (e.g., 2026-01-19)'')
           | Inl e \<Rightarrow> Inl e)"

definition validate_days :: "py_value \<Rightarrow> int \<Rightarrow> int \<Rightarrow> error + py_value" where
  "validate_days days min_days max_days =
     (if days = PyNone then Inr PyNone
      else case as_int days of
             None \<Rightarrow> Inl (ValueError ''Days must be an integer'')
           | Some d \<Rightarrow>
               if d < min_days then Inl (ValueError (''Days must be at least '' @ str_int min_days))
               else if d > max_days then Inl (ValueError (''Days must be at most '' @ str_int max_days))
               else Inr days)"

definition validate_weeks :: "py_value \<Rightarrow> int \<Rightarrow> int \<Rightarrow> error + py_value" where
  "validate_weeks weeks min_weeks max_weeks =
     (case as_int weeks of
        None \<Rightarrow> Inl (ValueError ''Weeks must be an integer'')
      | Some w \<Rightarrow>
          if w < min_weeks then Inl (ValueError (''Weeks must be at least '' @ str_int min_weeks))
          else if w > max_weeks then Inl (ValueError (''Weeks must be at most '' @ str_int max_weeks))
          else Inr weeks)"

definition validate_months :: "py_value \<Rightarrow> int \<Rightarrow> int \<Rightarrow> error + py_value" where
  "validate_months months min_months max_months =
     (case as_int months of
        None \<Rightarrow> Inl (ValueError ''Months must be an integer'')
      | Some m \<Rightarrow>
          if m < min_months then Inl (ValueError (''Months must be at least '' @ str_int min_months))
          else if m > max_months then Inl (ValueError (''Months must be at most '' @ str_int max_months))
          else Inr months)"

section \<open>Data model (app/models.py)\<close>

text \<open>
  The two tables, each a list of rows in storage order. \<open>cid\<close> and \<open>rid\<close> are
  the \<open>id\<close> columns of the two classes. The columns that ingestion fills from
  the provider's payload with \<open>dict.get\<close> may hold \<open>None\<close>.
\<close>

record City =
  cid :: int
  name :: string
  country :: "string option"
  lat :: "rat option"
  lon :: "rat option"
  created_at :: datetime

record WeatherRecord =
  rid :: int
  city_id :: int
  temperature :: "rat option"
  humidity :: "int option"
  pressure :: "int option"
  weather_main :: "string option"
  recorded_at :: datetime

record database =
  cities :: "City list"
  weather_records :: "WeatherRecord list"

text \<open>\<open>db.query(City).filter(City.name == city_name).first()\<close>\<close>

definition query_city :: "database \<Rightarrow> string \<Rightarrow> City option" where
  "query_city db city_name = find (\<lambda>c. name c = city_name) (cities db)"

text \<open>\<open>db.query(WeatherRecord).filter(WeatherRecord.city_id == city_id).all()\<close>:
  the rows of the city in the order the storage yields them.\<close>

definition query_records :: "database \<Rightarrow> int \<Rightarrow> WeatherRecord list" where
  "query_records db c = filter (\<lambda>r. city_id r = c) (weather_records db)"

text \<open>\<open>.order_by(WeatherRecord.recorded_at)\<close>\<close>

definition order_by_recorded_at :: "WeatherRecord list \<Rightarrow> WeatherRecord list" where
  "order_by_recorded_at rows = sort_key (\<lambda>r. dt_tuple (recorded_at r)) rows"

section \<open>Python and SQL arithmetic\<close>

definition quote :: "string \<Rightarrow> string" where
  "quote s = CHR 0x27 # s @ [CHR 0x27]"

text \<open>
  Floating point. \<open>fl x\<close> is the double nearest to the rational \<open>x\<close>, a tie
  going to the even significand: with \<open>2 ^ e \<le> |x| < 2 ^ (e + 1)\<close> the doubles
  around \<open>x\<close> are the multiples of \<open>2 ^ (e - 52)\<close>, and of \<open>2 ^ - 1074\<close> in
  the subnormal range. A result beyond the largest double is outside the model. The
  division, the subtraction and the conversion from a decimal that the code performs
  on floats are the exact operation followed by \<open>fl\<close>; comparisons are exact.
\<close>

definition pow2 :: "int \<Rightarrow> rat" where
  "pow2 k = (if 0 \<le> k then 2 ^ nat k else 1 / 2 ^ nat (- k))"

definition round_half_even :: "rat \<Rightarrow> int" where
  "round_half_even m =
     (let f = \<lfloor>m\<rfloor>; r = m - of_int f
      in if r < 1 / 2 then f else if r > 1 / 2 then f + 1 else if even f then f else f + 1)"

text \<open>The \<open>e\<close> with \<open>2 ^ e \<le> a < 2 ^ (e + 1)\<close>, for a positive \<open>a\<close>, from the
  bit lengths of its numerator and denominator.\<close>

definition exponent :: "rat \<Rightarrow> int" where
  "exponent a =
     (case quotient_of a of (p, q) \<Rightarrow>
        let d = int (floorlog 2 (nat p)) - int (floorlog 2 (nat q))
        in if pow2 d \<le> a then d else d - 1)"

definition fl :: "rat \<Rightarrow> rat" where
  "fl x =
     (if x = 0 then 0
      else let u = max (exponent \<bar>x\<bar> - 52) (- 1074)
           in sgn x * of_int (round_half_even (\<bar>x\<bar> / pow2 u)) * pow2 u)"

text \<open>\<open>round(x, 2)\<close> on the float \<open>x\<close>: the exact value of \<open>x\<close> is rounded to
  the nearest multiple of 0.01, a tie going to the even one, and that decimal is
  converted to the nearest double.\<close>

definition py_round2 :: "rat \<Rightarrow> rat" where
  "py_round2 x = fl (of_int (round_half_even (x * 100)) / 100)"

text \<open>
  Two results depend on more than the values: \<open>sum\<close> over a list of floats (the
  interpreter adds from left to right up to Python 3.11 and with a compensated
  summation from 3.12 on) and the \<open>avg\<close> of the database over a column of doubles
  (the engine chooses its order of accumulation). Both are parameters of the
  operations that use them; each returns a float.
\<close>

record numerics =
  py_sum :: "rat list \<Rightarrow> rat"
  db_avg :: "rat list \<Rightarrow> rat"


primrec present :: "'a option list \<Rightarrow> 'a list" where
  "present [] = []"
| "present (x # xs) = (case x of None \<Rightarrow> present xs | Some v \<Rightarrow> v # present xs)"

text \<open>\<open>[v for v in xs if v]\<close> on numbers: \<open>None\<close> and zero are dropped.\<close>

definition truthy :: "'a::zero option list \<Rightarrow> 'a list" where
  "truthy xs = filter (\<lambda>v. v \<noteq> 0) (present xs)"




text \<open>\<open>sum(xs) / len(xs) if xs else 0\<close> on floats\<close>

definition mean_or_zero :: "numerics \<Rightarrow> rat list \<Rightarrow> rat" where
  "mean_or_zero nm xs = (if xs \<noteq> [] then fl (py_sum nm xs / of_nat (length xs)) else 0)"

text \<open>\<open>min(xs) if xs else 0\<close> and \<open>max(xs) if xs else 0\<close>\<close>

definition min_or_zero :: "'a::{linorder,zero} list \<Rightarrow> 'a" where
  "min_or_zero xs = (case xs of [] \<Rightarrow> 0 | x # ys \<Rightarrow> fold min ys x)"

definition max_or_zero :: "'a::{linorder,zero} list \<Rightarrow> 'a" where
  "max_or_zero xs = (case xs of [] \<Rightarrow> 0 | x # ys \<Rightarrow> fold max ys x)"


text \<open>SQL \<open>date(recorded_at)\<close> and \<open>str\<close> of the date it yields.\<close>

type_synonym date = "nat \<times> nat \<times> nat"

definition sql_date :: "datetime \<Rightarrow> date" where
  "sql_date d = (year d, month d, day d)"


text \<open>A Python \<open>dict\<close> as an association list in insertion order with distinct
  keys; \<open>d[k] = v\<close> replaces the value of a key already there.\<close>

fun dict_set :: "'k \<Rightarrow> 'v \<Rightarrow> ('k \<times> 'v) list \<Rightarrow> ('k \<times> 'v) list" where
  "dict_set k v [] = [(k, v)]"
| "dict_set k v ((k', v') # d) = (if k' = k then (k, v) # d else (k', v') # dict_set k v d)"

definition dict_get :: "('k \<times> 'v) list \<Rightarrow> 'k \<Rightarrow> 'v \<Rightarrow> 'v" where
  "dict_get d k dflt = (case map_of d k of None \<Rightarrow> dflt | Some v \<Rightarrow> v)"


section \<open>Analytics engine (app/services/analytics_service.py)\<close>

text \<open>Every operation takes the reading of the clock, \<open>datetime.utcnow()\<close>, as the
  argument \<open>now\<close> where the code reads it.\<close>

subsection \<open>Daily average\<close>

record daily_average =
  date :: string
  avg_temperature :: rat
  record_count :: nat




subsection \<open>Trend analysis\<close>



text \<open>
  \<open>get_weather_trend\<close> is written in two parts: \<open>trend_window\<close> is its query,
  \<open>analyse\<close> what it computes from the records found. \<open>first_half\<close>,
  \<open>second_half\<close>, \<open>temp_change\<close> and \<open>direction\<close> are the expressions it
  assigns to \<open>first_half\<close>, \<open>second_half\<close>, \<open>temp_change\<close> and
  \<open>trend_direction\<close>. \<open>sum\<close> is the first arithmetic on the temperatures, so a
  temperature that is \<open>None\<close> ends the call with its \<open>TypeError\<close>.
\<close>

definition first_half :: "'a list \<Rightarrow> 'a list" where
  "first_half temperatures = take (length temperatures div 2) temperatures"

definition second_half :: "'a list \<Rightarrow> 'a list" where
  "second_half temperatures = drop (length temperatures div 2) temperatures"

definition temp_change :: "numerics \<Rightarrow> rat list \<Rightarrow> rat" where
  "temp_change nm temperatures =
     fl (mean_or_zero nm (second_half temperatures) - mean_or_zero nm (first_half temperatures))"

definition direction :: "rat \<Rightarrow> string" where
  "direction change =
     (if change > 1 / 2 then ''increasing''
      else if change < - (1 / 2) then ''decreasing''
      else ''stable'')"




subsection \<open>Humidity and pressure patterns\<close>

record int_stats =
  average :: rat
  minimum :: int
  maximum :: int

record patterns =
  humidity_stats :: int_stats
  pressure_stats :: int_stats
  weather_conditions :: "(string \<times> nat) list"
  total_records :: nat

text \<open>\<open>{"average": round(sum(xs) / len(xs), 2) if xs else 0, "min": min(xs) if xs
  else 0, "max": max(xs) if xs else 0}\<close>\<close>

definition stats_of :: "int list \<Rightarrow> int_stats" where
  "stats_of xs =
     \<lparr>average = (if xs \<noteq> [] then py_round2 (fl (of_int (sum_list xs) / of_nat (length xs))) else 0),
      minimum = min_or_zero xs,
      maximum = max_or_zero xs\<rparr>"

text \<open>\<open>[r.weather_main for r in records if r.weather_main]\<close>: \<open>None\<close> and the
  empty string are dropped.\<close>

definition truthy_strings :: "string option list \<Rightarrow> string list" where
  "truthy_strings xs = filter (\<lambda>s. s \<noteq> []) (present xs)"

definition count_condition :: "string \<Rightarrow> (string \<times> nat) list \<Rightarrow> (string \<times> nat) list" where
  "count_condition condition condition_counts =
     dict_set condition (dict_get condition_counts condition 0 + 1) condition_counts"

definition get_humidity_pressure_patterns :: "database \<Rightarrow> int \<Rightarrow> patterns option" where
  "get_humidity_pressure_patterns db c =
     (let records = query_records db c in
      if records = [] then None
      else Some \<lparr>humidity_stats = stats_of (truthy (map humidity records)),
                 pressure_stats = stats_of (truthy (map pressure records)),
                 weather_conditions = fold count_condition (truthy_strings (map weather_main records)) [],
                 total_records = length records\<rparr>)"

subsection \<open>Multi-city comparison\<close>

record float_stats =
  f_average :: rat
  f_min :: rat
  f_max :: rat

record comparison =
  cmp_city_id :: int
  cmp_country :: "string option"
  cmp_temperature :: float_stats
  cmp_humidity :: int_stats
  cmp_pressure :: int_stats
  cmp_total_records :: nat
  latest_record :: "string option"

definition float_stats_of :: "numerics \<Rightarrow> rat list \<Rightarrow> float_stats" where
  "float_stats_of nm xs =
     \<lparr>f_average = (if xs \<noteq> [] then py_round2 (fl (py_sum nm xs / of_nat (length xs))) else 0),
      f_min = (if xs \<noteq> [] then py_round2 (min_or_zero xs) else 0),
      f_max = (if xs \<noteq> [] then py_round2 (max_or_zero xs) else 0)\<rparr>"

definition comparison_of :: "numerics \<Rightarrow> City \<Rightarrow> WeatherRecord list \<Rightarrow> comparison" where
  "comparison_of nm city_obj records =
     \<lparr>cmp_city_id = cid city_obj,
      cmp_country = country city_obj,
      cmp_temperature = float_stats_of nm (truthy (map temperature records)),
      cmp_humidity = stats_of (truthy (map humidity records)),
      cmp_pressure = stats_of (truthy (map pressure records)),
      cmp_total_records = length records,
      latest_record = (if records \<noteq> [] then Some (strftime_datetime (recorded_at (last records)))
                       else None)\<rparr>"

text \<open>One turn of the loop over \<open>city_names\<close>; \<open>continue\<close> leaves the
  dictionary as it is.\<close>

definition compare_step ::
    "numerics \<Rightarrow> database \<Rightarrow> string \<Rightarrow> (string \<times> comparison) list \<Rightarrow> (string \<times> comparison) list" where
  "compare_step nm db city_name comparison_data =
     (case query_city db city_name of
        None \<Rightarrow> comparison_data
      | Some city_obj \<Rightarrow>
          let records = query_records db (cid city_obj) in
          if records = [] then comparison_data
          else dict_set city_name (comparison_of nm city_obj records) comparison_data)"

definition compare_cities :: "numerics \<Rightarrow> database \<Rightarrow> string list \<Rightarrow> (string \<times> comparison) list" where
  "compare_cities nm db city_names = fold (compare_step nm db) city_names []"

subsection \<open>Historical export\<close>

record historical =
  h_id :: int
  h_recorded_at :: string
  h_temperature :: "rat option"
  h_humidity :: "int option"
  h_pressure :: "int option"
  h_weather_main :: "string option"

definition in_range :: "datetime option \<Rightarrow> datetime option \<Rightarrow> datetime \<Rightarrow> bool" where
  "in_range start_date end_date t =
     ((case start_date of None \<Rightarrow> True | Some s \<Rightarrow> dt_le s t)
      \<and> (case end_date of None \<Rightarrow> True | Some e \<Rightarrow> dt_le t e))"

definition export_row :: "WeatherRecord \<Rightarrow> historical" where
  "export_row r =
     \<lparr>h_id = rid r, h_recorded_at = strftime_datetime (recorded_at r),
      h_temperature = temperature r, h_humidity = humidity r, h_pressure = pressure r,
      h_weather_main = weather_main r\<rparr>"

definition export_historical_data ::
    "database \<Rightarrow> int \<Rightarrow> datetime option \<Rightarrow> datetime option \<Rightarrow> historical list" where
  "export_historical_data db c start_date end_date =
     map export_row
       (order_by_recorded_at
          (filter (\<lambda>r. city_id r = c \<and> in_range start_date end_date (recorded_at r))
                  (weather_records db)))"

section \<open>Example data\<close>

text \<open>One city and some of its readings, used to evaluate the operations.\<close>

definition reading :: "int \<Rightarrow> rat option \<Rightarrow> int option \<Rightarrow> int option \<Rightarrow> string option \<Rightarrow> datetime \<Rightarrow> WeatherRecord" where
  "reading i t h p w ts =
     \<lparr>rid = i, city_id = 1, temperature = t, humidity = h, pressure = p, weather_main = w,
      recorded_at = ts\<rparr>"

definition tokyo :: City where
  "tokyo = \<lparr>cid = 1, name = ''Tokyo'', country = Some ''JP'', lat = Some (3568 / 100),
            lon = Some (13969 / 100), created_at = mk_datetime 2026 1 1 0 0 0 0\<rparr>"

definition db_patterns :: database where
  "db_patterns = \<lparr>cities = [tokyo], weather_records =
     [reading 1 (Some 10) (Some 40) (Some 1010) (Some ''Clear'') (mk_datetime 2026 1 10 8 0 0 0),
      reading 2 (Some 12) (Some 60) None (Some ''Rain'') (mk_datetime 2026 1 11 8 0 0 0),
      reading 3 (Some 11) None (Some 0) (Some ''Rain'') (mk_datetime 2026 1 12 8 0 0 0)]\<rparr>"

definition db_blank_label :: database where
  "db_blank_label = \<lparr>cities = [tokyo], weather_records =
     [reading 1 (Some 10) (Some 40) (Some 1010) (Some ''Rain'') (mk_datetime 2026 1 10 8 0 0 0),
      reading 2 (Some 12) (Some 60) (Some 1020) (Some []) (mk_datetime 2026 1 11 8 0 0 0)]\<rparr>"

definition db_silent :: database where
  "db_silent = \<lparr>cities = [tokyo], weather_records =
     [reading 1 (Some 10) None (Some 0) (Some ''Clear'') (mk_datetime 2026 1 10 8 0 0 0),
      reading 2 (Some 12) (Some 0) None (Some ''Rain'') (mk_datetime 2026 1 11 8 0 0 0)]\<rparr>"

definition london :: City where
  "london = \<lparr>cid = 2, name = ''London'', country = Some ''GB'', lat = Some (5151 / 100),
             lon = Some (- 13 / 100), created_at = mk_datetime 2026 1 2 0 0 0 0\<rparr>"

definition paris :: City where
  "paris = \<lparr>cid = 3, name = ''Paris'', country = None, lat = Some (4885 / 100),
            lon = Some (235 / 100), created_at = mk_datetime 2026 1 3 0 0 0 0\<rparr>"

definition db_compare :: database where
  "db_compare = \<lparr>cities = [tokyo, london, paris], weather_records =
     [reading 1 (Some 10) (Some 40) (Some 1010) (Some ''Clear'') (mk_datetime 2026 1 15 9 30 0 0),
      (reading 2 (Some 4) (Some 80) (Some 1000) (Some ''Rain'') (mk_datetime 2026 1 12 7 0 0 0))\<lparr>city_id := 2\<rparr>,
      reading 3 (Some 12) (Some 60) (Some 1020) (Some ''Clouds'') (mk_datetime 2026 1 10 8 0 0 0)]\<rparr>"

definition db_noon :: database where
  "db_noon = \<lparr>cities = [tokyo], weather_records =
     [reading 1 (Some 10) (Some 40) (Some 1010) (Some ''Clear'') (mk_datetime 2026 1 19 12 30 0 0)]\<rparr>"

definition noon_20th :: datetime where
  "noon_20th = mk_datetime 2026 3 20 12 0 0 0"




text \<open>One arithmetic the two parameters can stand for: \<open>sum\<close> adds from left to
  right, every addition rounded, and the average is that sum divided by the count.\<close>

definition sequential_sum :: "rat list \<Rightarrow> rat" where
  "sequential_sum xs = fold (\<lambda>x s. fl (s + x)) xs 0"

definition sequential :: numerics where
  "sequential = \<lparr>py_sum = sequential_sum,
                  db_avg = (\<lambda>xs. fl (sequential_sum xs / of_nat (length xs)))\<rparr>"

section \<open>The daily average in the words of the specification\<close>



section \<open>Ingestion service (app/services/weather_service.py)\<close>

text \<open>
  What \<open>response.json()\<close> returns: a parsed JSON value. An object is the list of its
  members with distinct keys.
\<close>

datatype json =
    JNull
  | JBool bool
  | JInt int
  | JFloat rat
  | JStr string
  | JArr "json list"
  | JObj "(string \<times> json) list"

fun type_name :: "json \<Rightarrow> string" where
  "type_name JNull = ''NoneType''"
| "type_name (JBool b) = ''bool''"
| "type_name (JInt i) = ''int''"
| "type_name (JFloat x) = ''float''"
| "type_name (JStr s) = ''str''"
| "type_name (JArr xs) = ''list''"
| "type_name (JObj kvs) = ''dict''"

text \<open>Truth value of a parsed value, as \<open>not v\<close> tests it.\<close>

fun json_truthy :: "json \<Rightarrow> bool" where
  "json_truthy JNull = False"
| "json_truthy (JBool b) = b"
| "json_truthy (JInt i) = (i \<noteq> 0)"
| "json_truthy (JFloat x) = (x \<noteq> 0)"
| "json_truthy (JStr s) = (s \<noteq> [])"
| "json_truthy (JArr xs) = (xs \<noteq> [])"
| "json_truthy (JObj kvs) = (kvs \<noteq> [])"

fun starts_with :: "string \<Rightarrow> string \<Rightarrow> bool" where
  "starts_with [] s = True"
| "starts_with (c # cs) [] = False"
| "starts_with (c # cs) (d # ds) = (c = d \<and> starts_with cs ds)"

fun substring :: "string \<Rightarrow> string \<Rightarrow> bool" where
  "substring key [] = (key = [])"
| "substring key (d # ds) = (starts_with key (d # ds) \<or> substring key ds)"

text \<open>\<open>key in data\<close> for a string \<open>key\<close>: membership among the keys of a
  dictionary or the elements of a list, containment in a string, \<open>TypeError\<close> for a
  value that is not a container.\<close>

fun py_in :: "string \<Rightarrow> json \<Rightarrow> error + bool" where
  "py_in key (JObj kvs) = Inr (key \<in> set (map fst kvs))"
| "py_in key (JArr xs) = Inr (JStr key \<in> set xs)"
| "py_in key (JStr s) = Inr (substring key s)"
| "py_in key v = Inl (TypeError (''argument of type '' @ quote (type_name v) @ '' is not iterable''))"

text \<open>\<open>data.get(key, default)\<close>: only a dictionary has the method.\<close>

fun py_get :: "json \<Rightarrow> string \<Rightarrow> json \<Rightarrow> error + json" where
  "py_get (JObj kvs) key dflt = Inr (case map_of kvs key of None \<Rightarrow> dflt | Some v \<Rightarrow> v)"
| "py_get v key dflt =
     Inl (AttributeError (quote (type_name v) @ '' object has no attribute '' @ quote ''get''))"

text \<open>\<open>v[0]\<close>\<close>

fun py_first :: "json \<Rightarrow> error + json" where
  "py_first (JArr []) = Inl (IndexError ''list index out of range'')"
| "py_first (JArr (x # xs)) = Inr x"
| "py_first (JStr []) = Inl (IndexError ''string index out of range'')"
| "py_first (JStr (c # cs)) = Inr (JStr [c])"
| "py_first (JObj kvs) = Inl (KeyError ''0'')"
| "py_first v = Inl (TypeError (quote (type_name v) @ '' object is not subscriptable''))"

text \<open>
  The response of the provider as \<open>requests\<close> hands it over, and the outcome of
  \<open>requests.get\<close>: an exception or a response. \<open>Timeout\<close>, \<open>ConnectionError\<close>
  and \<open>RequestException\<close> stand for these classes of \<open>requests.exceptions\<close> and
  their subclasses, \<open>RequestException\<close> for the ones that are neither of the first
  two (\<open>HTTPError\<close> among them).
\<close>

record response =
  status_code :: nat
  reason :: string
  url :: string
  json_body :: "error + json"

datatype http_outcome = Raises error | Responds response

text \<open>\<open>response.raise_for_status()\<close> raises \<open>HTTPError\<close> for the status codes
  from 400 to 599 and returns for every other one.\<close>

definition raise_for_status :: "response \<Rightarrow> error + unit" where
  "raise_for_status r =
     (if 400 \<le> status_code r \<and> status_code r < 500
      then Inl (RequestException (str_nat (status_code r) @ '' Client Error: '' @ reason r
                                   @ '' for url: '' @ url r))
      else if 500 \<le> status_code r \<and> status_code r < 600
      then Inl (RequestException (str_nat (status_code r) @ '' Server Error: '' @ reason r
                                   @ '' for url: '' @ url r))
      else Inr ())"

text \<open>The body of the \<open>try\<close> of \<open>fetch_weather_from_api\<close>.\<close>

definition fetch_try :: "http_outcome \<Rightarrow> string \<Rightarrow> error + json" where
  "fetch_try outcome city_name =
     (case outcome of
        Raises e \<Rightarrow> Inl e
      | Responds r \<Rightarrow>
          if status_code r = 404
          then Inl (ValidationError (''City '' @ quote city_name @ '' not found. Please check the city name.''))
          else if status_code r = 401
          then Inl (ExternalAPIError ''Invalid OpenWeather API key'')
          else (case raise_for_status r of
                  Inl e \<Rightarrow> Inl e
                | Inr u \<Rightarrow>
               (case json_body r of
                  Inl e \<Rightarrow> Inl e
                | Inr data \<Rightarrow>
               (case py_in ''main'' data of
                  Inl e \<Rightarrow> Inl e
                | Inr has_main \<Rightarrow>
                    if \<not> has_main then Inl (ExternalAPIError ''Invalid response from weather API'')
                    else (case py_in ''weather'' data of
                            Inl e \<Rightarrow> Inl e
                          | Inr has_weather \<Rightarrow>
                              if \<not> has_weather
                              then Inl (ExternalAPIError ''Invalid response from weather API'')
                              else Inr data)))))"

text \<open>Its \<open>except\<close> clauses, in their order; an exception no clause names
  propagates.\<close>

fun fetch_except :: "error \<Rightarrow> error" where
  "fetch_except (Timeout m) =
     ExternalAPIError ''Weather API request timed out. Please try again later.''"
| "fetch_except (ConnectionError m) =
     ExternalAPIError ''Failed to connect to weather API. Please check your internet connection.''"
| "fetch_except (ValidationError m) = ValidationError m"
| "fetch_except (RequestException m) = ExternalAPIError (''Failed to fetch weather data: '' @ m)"
| "fetch_except e = e"

text \<open>\<open>api_key\<close> is \<open>OPENWEATHER_API_KEY\<close>, read from the environment: \<open>None\<close>
  when the variable is not set.\<close>

definition fetch_weather_from_api :: "string option \<Rightarrow> http_outcome \<Rightarrow> string \<Rightarrow> error + json" where
  "fetch_weather_from_api api_key outcome city_name =
     (if api_key = None \<or> api_key = Some []
      then Inl (ExternalAPIError ''OpenWeather API key is not configured'')
      else case fetch_try outcome city_name of
             Inl e \<Rightarrow> Inl (fetch_except e)
           | Inr data \<Rightarrow> Inr data)"

text \<open>
  The storage engine binds a Python value to a column and may refuse it; how it does so
  is not part of the repository, so the bindings are parameters: one for each kind of
  nullable column, and \<open>bind_name\<close> for the string a value that is not null is
  stored and compared as in the \<open>name\<close> column. What they raise is an exception of
  the storage layer.
\<close>

record storage =
  bind_float :: "json \<Rightarrow> error + rat option"
  bind_integer :: "json \<Rightarrow> error + int option"
  bind_string :: "json \<Rightarrow> error + string option"
  bind_name :: "json \<Rightarrow> error + string"

text \<open>The key a serial \<open>id\<close> column gives the next row.\<close>

definition next_id :: "int list \<Rightarrow> int" where
  "next_id ids = fold max ids 0 + 1"

definition get_or_create_city ::
    "storage \<Rightarrow> datetime \<Rightarrow> database \<Rightarrow> json \<Rightarrow> json \<Rightarrow> json \<Rightarrow> json \<Rightarrow> error + database \<times> City" where
  "get_or_create_city st now db city_name lat_v lon_v country_v =
     (case bind_name st city_name of
        Inl e \<Rightarrow> Inl e
      | Inr n \<Rightarrow>
     (case find (\<lambda>c. name c = n) (cities db) of
        Some city \<Rightarrow> Inr (db, city)
      | None \<Rightarrow>
     (case bind_string st country_v of
        Inl e \<Rightarrow> Inl e
      | Inr co \<Rightarrow>
     (case bind_float st lat_v of
        Inl e \<Rightarrow> Inl e
      | Inr la \<Rightarrow>
     (case bind_float st lon_v of
        Inl e \<Rightarrow> Inl e
      | Inr lo \<Rightarrow>
          let new_city = \<lparr>cid = next_id (map cid (cities db)), name = n, country = co,
                           lat = la, lon = lo, created_at = now\<rparr>
          in Inr (db\<lparr>cities := cities db @ [new_city]\<rparr>, new_city))))))"

definition save_weather_record ::
    "storage \<Rightarrow> datetime \<Rightarrow> database \<Rightarrow> int \<Rightarrow> json \<Rightarrow> error + database \<times> WeatherRecord" where
  "save_weather_record st now db c weather_data =
     (case py_get weather_data ''main'' (JObj []) of
        Inl e \<Rightarrow> Inl e
      | Inr main_data \<Rightarrow>
     (case py_get weather_data ''weather'' (JArr [JObj []]) of
        Inl e \<Rightarrow> Inl e
      | Inr weather_list \<Rightarrow>
     (case py_first weather_list of
        Inl e \<Rightarrow> Inl e
      | Inr weather_info \<Rightarrow>
     (case py_get main_data ''temp'' JNull of
        Inl e \<Rightarrow> Inl e
      | Inr temp_v \<Rightarrow>
     (case py_get main_data ''humidity'' JNull of
        Inl e \<Rightarrow> Inl e
      | Inr humidity_v \<Rightarrow>
     (case py_get main_data ''pressure'' JNull of
        Inl e \<Rightarrow> Inl e
      | Inr pressure_v \<Rightarrow>
     (case py_get weather_info ''main'' JNull of
        Inl e \<Rightarrow> Inl e
      | Inr main_v \<Rightarrow>
     (case bind_float st temp_v of
        Inl e \<Rightarrow> Inl e
      | Inr t \<Rightarrow>
     (case bind_integer st humidity_v of
        Inl e \<Rightarrow> Inl e
      | Inr h \<Rightarrow>
     (case bind_integer st pressure_v of
        Inl e \<Rightarrow> Inl e
      | Inr p \<Rightarrow>
     (case bind_string st main_v of
        Inl e \<Rightarrow> Inl e
      | Inr w \<Rightarrow>
          let weather_record = \<lparr>rid = next_id (map rid (weather_records db)), city_id = c,
                                 temperature = t, humidity = h, pressure = p, weather_main = w,
                                 recorded_at = now\<rparr>
          in Inr (db\<lparr>weather_records := weather_records db @ [weather_record]\<rparr>,
                  weather_record))))))))))))"

text \<open>The body of the \<open>try\<close> of \<open>fetch_and_save_weather\<close>; both readings of the
  clock are \<open>now\<close>.\<close>

definition fetch_and_save_try ::
    "string option \<Rightarrow> http_outcome \<Rightarrow> storage \<Rightarrow> datetime \<Rightarrow> database \<Rightarrow> string
       \<Rightarrow> error + database \<times> WeatherRecord" where
  "fetch_and_save_try api_key outcome st now db city_name =
     (case fetch_weather_from_api api_key outcome city_name of
        Inl e \<Rightarrow> Inl e
      | Inr weather_data \<Rightarrow>
     (case py_get weather_data ''name'' JNull of
        Inl e \<Rightarrow> Inl e
      | Inr city_name_from_api \<Rightarrow>
     (case py_get weather_data ''coord'' (JObj []) of
        Inl e \<Rightarrow> Inl e
      | Inr coord \<Rightarrow>
     (case py_get coord ''lat'' JNull of
        Inl e \<Rightarrow> Inl e
      | Inr lat_v \<Rightarrow>
     (case py_get coord ''lon'' JNull of
        Inl e \<Rightarrow> Inl e
      | Inr lon_v \<Rightarrow>
     (case py_get weather_data ''sys'' (JObj []) of
        Inl e \<Rightarrow> Inl e
      | Inr sys \<Rightarrow>
     (case py_get sys ''country'' JNull of
        Inl e \<Rightarrow> Inl e
      | Inr country_v \<Rightarrow>
          if \<not> json_truthy city_name_from_api \<or> lat_v = JNull \<or> lon_v = JNull
          then Inl (ExternalAPIError ''Invalid weather data received from API'')
          else (case get_or_create_city st now db city_name_from_api lat_v lon_v country_v of
                  Inl e \<Rightarrow> Inl e
                | Inr (db1, city) \<Rightarrow> save_weather_record st now db1 (cid city) weather_data))))))))"

text \<open>Its \<open>except\<close> clauses: the two domain kinds are raised again, every other
  exception is wrapped.\<close>

fun fetch_and_save_except :: "error \<Rightarrow> error" where
  "fetch_and_save_except (ExternalAPIError m) = ExternalAPIError m"
| "fetch_and_save_except (ValidationError m) = ValidationError m"
| "fetch_and_save_except e =
     ExternalAPIError (''Unexpected error while fetching weather: '' @ str_error e)"

definition fetch_and_save_weather ::
    "string option \<Rightarrow> http_outcome \<Rightarrow> storage \<Rightarrow> datetime \<Rightarrow> database \<Rightarrow> string
       \<Rightarrow> error + database \<times> WeatherRecord" where
  "fetch_and_save_weather api_key outcome st now db city_name =
     (case fetch_and_save_try api_key outcome st now db city_name of
        Inl e \<Rightarrow> Inl (fetch_and_save_except e)
      | Inr r \<Rightarrow> Inr r)"

section \<open>API layer (app/routers/analytics.py)\<close>

record patterns_response =
  pr_city :: string
  pr_humidity :: int_stats
  pr_pressure :: int_stats
  pr_weather_conditions :: "(string \<times> nat) list"
  pr_total_records :: nat

text \<open>The \<open>except\<close> clauses that close an endpoint of the analytics router, in
  their order.\<close>

fun analytics_except :: "error \<Rightarrow> error" where
  "analytics_except (ValidationError m) = HTTPException 400 m"
| "analytics_except (CityNotFoundError m) = HTTPException 404 m"
| "analytics_except (WeatherDataNotFoundError m) = HTTPException 404 m"
| "analytics_except e = HTTPException 500 (''Internal server error: '' @ str_error e)"

text \<open>\<open>get_patterns\<close>; the response model accepts every value the service
  returns.\<close>

definition get_patterns :: "database \<Rightarrow> string \<Rightarrow> error + patterns_response" where
  "get_patterns db city =
     (case (case validate_city_name city of
              Inl e \<Rightarrow> Inl e
            | Inr city \<Rightarrow>
           (case query_city db city of
              None \<Rightarrow> Inl (CityNotFoundError (''City '' @ quote city @ '' not found''))
            | Some city_obj \<Rightarrow>
           (case get_humidity_pressure_patterns db (cid city_obj) of
              None \<Rightarrow> Inl (WeatherDataNotFoundError (''No weather records found for '' @ quote city))
            | Some patterns_data \<Rightarrow>
                Inr \<lparr>pr_city = name city_obj,
                     pr_humidity = humidity_stats patterns_data,
                     pr_pressure = pressure_stats patterns_data,
                     pr_weather_conditions = weather_conditions patterns_data,
                     pr_total_records = total_records patterns_data\<rparr>))) of
        Inl e \<Rightarrow> Inl (analytics_except e)
      | Inr r \<Rightarrow> Inr r)"

text \<open>The validation of one name in the loop of \<open>compare_cities_endpoint\<close>: there a
  \<open>ValueError\<close> is caught and raised again as \<open>ValidationError\<close>.\<close>

definition validate_compared_city :: "string \<Rightarrow> error + string" where
  "validate_compared_city city =
     (case validate_city_name city of
        Inl (ValueError m) \<Rightarrow> Inl (ValidationError (''Invalid city name '' @ quote city @ '': '' @ m))
      | r \<Rightarrow> r)"

section \<open>Example provider responses\<close>

definition strict_storage :: storage where
  "strict_storage =
     \<lparr>bind_float = (\<lambda>v. case v of JNull \<Rightarrow> Inr None | JInt i \<Rightarrow> Inr (Some (of_int i))
                         | JFloat x \<Rightarrow> Inr (Some x) | _ \<Rightarrow> Inl (DatabaseError ''not a number'')),
      bind_integer = (\<lambda>v. case v of JNull \<Rightarrow> Inr None | JInt i \<Rightarrow> Inr (Some i)
                         | _ \<Rightarrow> Inl (DatabaseError ''not an integer'')),
      bind_string = (\<lambda>v. case v of JNull \<Rightarrow> Inr None | JStr s \<Rightarrow> Inr (Some s)
                         | _ \<Rightarrow> Inl (DatabaseError ''not a string'')),
      bind_name = (\<lambda>v. case v of JStr s \<Rightarrow> Inr s | _ \<Rightarrow> Inl (DatabaseError ''not a string''))\<rparr>"

definition tokyo_payload :: json where
  "tokyo_payload = JObj
     [(''coord'', JObj [(''lon'', JFloat (1397 / 10)), (''lat'', JFloat (357 / 10))]),
      (''weather'', JArr [JObj [(''main'', JStr ''Clear'')]]),
      (''main'', JObj [(''temp'', JFloat (25 / 2)), (''humidity'', JInt 40), (''pressure'', JInt 1010)]),
      (''sys'', JObj [(''country'', JStr ''JP'')]),
      (''name'', JStr ''Tokyo'')]"

definition respond :: "nat \<Rightarrow> string \<Rightarrow> error + json \<Rightarrow> http_outcome" where
  "respond code phrase b =
     Responds \<lparr>status_code = code, reason = phrase,
               url = ''https://api.openweathermap.org/data/2.5/weather'', json_body = b\<rparr>"

definition db_empty :: database where
  "db_empty = \<lparr>cities = [], weather_records = []\<rparr>"

section \<open>Properties of the validation functions\<close>

lemma str_int_1: "str_int 1 = ''1''"
  by code_simp

lemma str_int_365: "str_int 365 = ''365''"
  by code_simp

text \<open>
  Claim C8. With the default bounds 1 and 365, \<open>validate_days\<close> returns an integer
  value in the range unchanged, fails for an integer below 1 or above 365, fails for a
  value that is neither an integer nor \<open>None\<close>, and returns \<open>None\<close> for
  \<open>None\<close>. An integer value is a Python \<open>int\<close> (or a \<open>bool\<close>, which
  Python counts as one); the failure is a \<open>ValueError\<close> with the message shown.
\<close>

theorem C8_validate_days:
  "(as_int v = Some d \<and> 1 \<le> d \<and> d \<le> 365 \<longrightarrow> validate_days v 1 365 = Inr v)
   \<and> (as_int v = Some d \<and> d < 1 \<longrightarrow>
        validate_days v 1 365 = Inl (ValueError ''Days must be at least 1''))
   \<and> (as_int v = Some d \<and> 365 < d \<longrightarrow>
        validate_days v 1 365 = Inl (ValueError ''Days must be at most 365''))
   \<and> (v \<noteq> PyNone \<and> as_int v = None \<longrightarrow>
        validate_days v 1 365 = Inl (ValueError ''Days must be an integer''))
   \<and> validate_days PyNone 1 365 = Inr PyNone
   \<and> as_int (PyInt d) = Some d"
  by (cases v) (auto simp: validate_days_def str_int_1 str_int_365)

theorem C8_validate_days_witness:
  "validate_days (PyInt 7) 1 365 = Inr (PyInt 7)
   \<and> validate_days (PyInt 0) 1 365 = Inl (ValueError ''Days must be at least 1'')
   \<and> validate_days (PyInt 366) 1 365 = Inl (ValueError ''Days must be at most 365'')
   \<and> validate_days (PyFloat (7 / 2)) 1 365 = Inl (ValueError ''Days must be an integer'')"
  using C8_validate_days [of "PyInt 7" 7] C8_validate_days [of "PyInt 0" 0]
    C8_validate_days [of "PyInt 366" 366] C8_validate_days [of "PyFloat (7 / 2)" 0]
  by simp

section \<open>Floating-point arithmetic\<close>

text \<open>\<open>exponent\<close> finds the binade of a positive number, so \<open>fl x\<close> is \<open>x\<close> in units
  of \<open>2 ^ (e - 52)\<close>, rounded to an integer, a tie going to the even one.\<close>

lemma pow2_power_int: "pow2 k = power_int 2 k"
  by (simp add: pow2_def power_int_def inverse_eq_divide power_one_over)

lemma pow2_pos: "0 < pow2 k"
  by (simp add: pow2_power_int)

lemma pow2_add: "pow2 (j + k) = pow2 j * pow2 k"
  by (simp add: pow2_power_int power_int_add)

lemma pow2_less_iff: "pow2 j < pow2 k \<longleftrightarrow> j < k"
proof
  assume "pow2 j < pow2 k"
  show "j < k"
  proof (rule ccontr)
    assume "\<not> j < k"
    then have "k \<le> j" by simp
    then have "pow2 k \<le> pow2 j"
      unfolding pow2_power_int by (intro power_int_increasing) simp_all
    with \<open>pow2 j < pow2 k\<close> show False by simp
  qed
next
  assume "j < k"
  then show "pow2 j < pow2 k"
    unfolding pow2_power_int by (intro power_int_strict_increasing) simp_all
qed

lemma pow2_nat: "pow2 (int n) = 2 ^ n"
  by (simp add: pow2_def)

lemma exponent_bounds:
  assumes "0 < a"
  shows "pow2 (exponent a) \<le> a \<and> a < pow2 (exponent a + 1)"
proof -
  obtain p q where pq: "quotient_of a = (p, q)"
    by (cases "quotient_of a")
  have q: "0 < q"
    using pq by (rule quotient_of_denom_pos)
  have a: "a = of_int p / of_int q"
    using pq by (rule quotient_of_div)
  have p: "0 < p"
    using assms q unfolding a by (simp add: zero_less_divide_iff)
  define A where "A = floorlog 2 (nat p)"
  define B where "B = floorlog 2 (nat q)"
  have A: "2 ^ (A - 1) \<le> nat p" "nat p < 2 ^ A"
    using floorlog_bounds [of "nat p" 2] p by (simp_all add: A_def)
  have B: "2 ^ (B - 1) \<le> nat q" "nat q < 2 ^ B"
    using floorlog_bounds [of "nat q" 2] q by (simp_all add: B_def)
  have A1: "1 \<le> A"
    using p by (simp add: A_def floorlog_def)
  have B1: "1 \<le> B"
    using q by (simp add: B_def floorlog_def)
  have pr: "of_int p = (of_nat (nat p) :: rat)" and qr: "of_int q = (of_nat (nat q) :: rat)"
    using p q by simp_all
  have pA: "(of_int p :: rat) < pow2 (int A)"
    unfolding pr pow2_nat using A(2) by (metis of_nat_less_iff of_nat_numeral of_nat_power)
  have qB: "pow2 (int B - 1) \<le> (of_int q :: rat)"
  proof -
    have "int B - 1 = int (B - 1)" using B1 by simp
    then show ?thesis
      unfolding qr using B(1) by (metis pow2_nat of_nat_le_iff of_nat_numeral of_nat_power)
  qed
  have qpos: "0 < (of_int q :: rat)" using q by simp
  have "a < pow2 (int A) / pow2 (int B - 1)"
  proof -
    have "a < pow2 (int A) / of_int q"
      unfolding a using pA qpos by (simp add: divide_strict_right_mono)
    also have "\<dots> \<le> pow2 (int A) / pow2 (int B - 1)"
      using qB pow2_pos [of "int A"] pow2_pos [of "int B - 1"]
      by (simp add: frac_le)
    finally show ?thesis .
  qed
  moreover have "pow2 (int A) = pow2 (int A - int B + 1) * pow2 (int B - 1)"
    by (simp add: pow2_add [symmetric])
  ultimately have up: "a < pow2 (int A - int B + 1)"
    using pow2_pos [of "int B - 1"] by simp
  have pA': "pow2 (int A - 1) \<le> (of_int p :: rat)"
  proof -
    have "int A - 1 = int (A - 1)" using A1 by simp
    then show ?thesis
      unfolding pr using A(1) by (metis pow2_nat of_nat_le_iff of_nat_numeral of_nat_power)
  qed
  have qB': "(of_int q :: rat) < pow2 (int B)"
    unfolding qr pow2_nat using B(2) by (metis of_nat_less_iff of_nat_numeral of_nat_power)
  have "pow2 (int A - 1) / pow2 (int B) \<le> a"
  proof -
    have "pow2 (int A - 1) / pow2 (int B) \<le> pow2 (int A - 1) / of_int q"
      using qB' qpos pow2_pos [of "int A - 1"] by (simp add: frac_le)
    also have "\<dots> \<le> a"
      unfolding a using pA' qpos by (simp add: divide_right_mono)
    finally show ?thesis .
  qed
  moreover have "pow2 (int A - 1) = pow2 (int A - int B - 1) * pow2 (int B)"
    by (simp add: pow2_add [symmetric])
  ultimately have lo: "pow2 (int A - int B - 1) \<le> a"
    using pow2_pos [of "int B"] by simp
  show ?thesis
    using up lo by (simp add: exponent_def pq Let_def A_def B_def not_le)
qed

lemma exponent_eq:
  assumes "pow2 e \<le> x" "x < pow2 (e + 1)"
  shows "exponent x = e"
proof -
  have "0 < x"
    using assms(1) pow2_pos [of e] by simp
  then have b: "pow2 (exponent x) \<le> x" "x < pow2 (exponent x + 1)"
    using exponent_bounds by simp_all
  have "pow2 e < pow2 (exponent x + 1)" "pow2 (exponent x) < pow2 (e + 1)"
    using assms b by simp_all
  then show ?thesis
    by (simp add: pow2_less_iff)
qed

lemma round_half_even_near:
  assumes "\<bar>y - of_int m\<bar> < 1 / 2"
  shows "round_half_even y = m"
proof -
  have lo: "of_int m - 1 / 2 < y" and hi: "y < of_int m + 1 / 2"
    using assms by linarith+
  have "of_int (m - 1) \<le> y"
    using lo by simp
  then have 1: "m - 1 \<le> \<lfloor>y\<rfloor>"
    by (simp only: le_floor_iff)
  have "y < of_int (m + 1)"
    using hi by simp
  then have 2: "\<lfloor>y\<rfloor> < m + 1"
    by (simp only: floor_less_iff)
  from 1 2 have "\<lfloor>y\<rfloor> = m \<or> \<lfloor>y\<rfloor> = m - 1"
    by linarith
  then show ?thesis
  proof
    assume f: "\<lfloor>y\<rfloor> = m"
    then show ?thesis
      using hi by (simp add: round_half_even_def f Let_def)
  next
    assume f: "\<lfloor>y\<rfloor> = m - 1"
    have "1 / 2 < y - of_int (m - 1)"
      using lo by simp
    then show ?thesis
      by (simp add: round_half_even_def f Let_def)
  qed
qed

lemma round_half_even_of_int: "round_half_even (of_int m) = m"
  by (rule round_half_even_near) simp

lemma round_half_even_tie_down:
  assumes "y = of_int m + 1 / 2" "even m"
  shows "round_half_even y = m"
proof -
  have "\<lfloor>y\<rfloor> = m" unfolding assms(1) by linarith
  then show ?thesis using assms by (simp add: round_half_even_def Let_def)
qed

lemma round_half_even_tie_up:
  assumes "y = of_int m - 1 / 2" "even m"
  shows "round_half_even y = m"
proof -
  have "\<lfloor>y\<rfloor> = m - 1" unfolding assms(1) by linarith
  then show ?thesis using assms by (simp add: round_half_even_def Let_def)
qed

lemma fl_pos:
  assumes "pow2 e \<le> x" "x < pow2 (e + 1)" "- 1022 \<le> e"
  shows "fl x = of_int (round_half_even (x / pow2 (e - 52))) * pow2 (e - 52)"
proof -
  have x: "0 < x"
    using assms(1) pow2_pos [of e] by simp
  then have "exponent \<bar>x\<bar> = e"
    using assms exponent_eq by simp
  moreover have "max (e - 52) (- 1074) = e - 52"
    using assms(3) by simp
  ultimately show ?thesis
    using x by (simp add: fl_def Let_def)
qed

lemma fl_minus: "fl (- x) = - fl x"
  by (simp add: fl_def Let_def)

lemma round_half_even_numeral: "round_half_even (numeral k) = numeral k"
  using round_half_even_of_int [of "numeral k"] by simp


lemma py_round2_eq: "round_half_even (x * 100) = k \<Longrightarrow> py_round2 x = fl (of_int k / 100)"
  by (simp add: py_round2_def)

text \<open>Small numbers are doubles, and rounding them to two decimals changes nothing.\<close>

lemma fl_small:
  "fl 10 = 10" "fl 14 = 14" "fl 15 = 15" "fl 20 = 20" "fl 30 = 30" "fl 40 = 40" "fl 50 = 50" "fl 60 = 60"
  "fl 1010 = 1010" "fl (1 / 2) = 1 / 2" "fl (129 / 256) = 129 / 256"
  by (simp_all add: fl_pos [where e = 3] fl_pos [where e = 4] fl_pos [where e = 5]
      fl_pos [where e = 9] fl_pos [where e = "- 1"] pow2_def round_half_even_numeral)

lemma py_round2_small:
  "py_round2 10 = 10" "py_round2 15 = 15" "py_round2 20 = 20" "py_round2 50 = 50"
  "py_round2 1010 = 1010" "py_round2 (129 / 256) = 1 / 2"
  by (simp_all add: py_round2_def round_half_even_numeral fl_small
      round_half_even_near [where m = 50])

text \<open>\<open>round\<close> sees the float, not the fraction: the double nearest to 40.175 lies
  below it and is rounded to the double nearest to 40.17.\<close>

lemma fl_40175: "fl (1607 / 40) = 2827064297337651 / 70368744177664"
  by (simp add: fl_pos [where e = 5] pow2_def round_half_even_near [where m = 5654128594675302])

lemma round_of_nearest_double:
  "fl (1607 / 40) < 1607 / 40" "py_round2 (fl (1607 / 40)) = fl (4017 / 100)"
  by (simp_all add: fl_40175 py_round2_eq [where k = 4017] round_half_even_near [where m = 4017])

section \<open>Lists, dictionaries and statistics\<close>

lemma set_present: "set (present xs) = {v. Some v \<in> set xs}"
  by (induction xs) (auto split: option.splits)

lemma set_truthy: "set (truthy xs) = {v. v \<noteq> 0 \<and> Some v \<in> set xs}"
  by (auto simp: truthy_def set_present)

lemma sum_list_truthy:
  "sum_list (truthy xs) = sum_list (map (\<lambda>x. case x of None \<Rightarrow> 0 | Some (v::int) \<Rightarrow> v) xs)"
  by (induction xs) (auto simp: truthy_def split: option.splits)

lemma length_truthy_map:
  "length (truthy (map f rs)) = length (filter (\<lambda>r. f r \<noteq> None \<and> f r \<noteq> Some 0) rs)"
  by (induction rs) (auto simp: truthy_def split: option.splits)

lemma truthy_empty_iff: "truthy xs = [] \<longleftrightarrow> (\<forall>x\<in>set xs. x = None \<or> x = Some 0)"
  by (induction xs) (auto simp: truthy_def split: option.splits)

lemma min_or_zero_Min: "xs \<noteq> [] \<Longrightarrow> min_or_zero xs = Min (set xs)"
proof (cases xs)
  case (Cons a ys)
  have "fold min ys a = Min (set (a # ys))"
    by (rule Min.set_eq_fold [symmetric])
  then show ?thesis using Cons by (simp add: min_or_zero_def)
qed simp

lemma max_or_zero_Max: "xs \<noteq> [] \<Longrightarrow> max_or_zero xs = Max (set xs)"
proof (cases xs)
  case (Cons a ys)
  have "fold max ys a = Max (set (a # ys))"
    by (rule Max.set_eq_fold [symmetric])
  then show ?thesis using Cons by (simp add: max_or_zero_def)
qed simp

lemma map_of_dict_set: "map_of (dict_set k v d) = (map_of d)(k \<mapsto> v)"
  by (induction d) (auto simp: fun_eq_iff)

lemma keys_dict_set: "fst ` set (dict_set k v d) = insert k (fst ` set d)"
proof (induction d)
  case Nil
  then show ?case by simp
next
  case (Cons p d)
  obtain k' v' where p: "p = (k', v')" by (cases p)
  show ?case
  proof (cases "k' = k")
    case True
    then show ?thesis by (simp add: p)
  next
    case False
    then show ?thesis using Cons.IH by (simp add: p insert_commute)
  qed
qed

lemma distinct_dict_set: "distinct (map fst d) \<Longrightarrow> distinct (map fst (dict_set k v d))"
proof (induction d)
  case Nil
  then show ?case by simp
next
  case (Cons p d)
  obtain k' v' where p: "p = (k', v')" by (cases p)
  show ?case
  proof (cases "k' = k")
    case True
    then show ?thesis using Cons.prems by (simp add: p)
  next
    case False
    have "k' \<notin> fst ` set (dict_set k v d)"
      using False Cons.prems by (simp add: p keys_dict_set)
    then show ?thesis using Cons by (simp add: p False)
  qed
qed

lemma map_of_count_condition:
  "map_of (fold count_condition ws d) w =
     (if w \<in> set ws then Some (dict_get d w 0 + count_list ws w) else map_of d w)"
proof (induction ws arbitrary: d)
  case Nil
  then show ?case by simp
next
  case (Cons a ws)
  show ?case
    by (simp add: Cons.IH) (auto simp: count_condition_def map_of_dict_set dict_get_def)
qed

lemma distinct_count_condition:
  "distinct (map fst d) \<Longrightarrow> distinct (map fst (fold count_condition ws d))"
  by (induction ws arbitrary: d) (auto simp: count_condition_def distinct_dict_set)

lemma count_list_truthy_strings:
  "count_list (truthy_strings (map f rs)) w =
     (if w = [] then 0 else length (filter (\<lambda>r. f r = Some w) rs))"
  by (induction rs) (auto simp: truthy_strings_def split: option.splits)

lemma set_truthy_strings: "set (truthy_strings xs) = {s. s \<noteq> [] \<and> Some s \<in> set xs}"
  by (auto simp: truthy_strings_def set_present)

lemma stats_of_truthy:
  fixes f :: "WeatherRecord \<Rightarrow> int option"
  shows "stats_of (truthy (map f rs)) =
     (let n = length (filter (\<lambda>r. f r \<noteq> None \<and> f r \<noteq> Some 0) rs);
          S = {h. h \<noteq> 0 \<and> (\<exists>r\<in>set rs. f r = Some h)}
      in \<lparr>average = (if n = 0 then 0 else
             py_round2 (fl (of_int (sum_list (map (\<lambda>r. case f r of None \<Rightarrow> 0 | Some h \<Rightarrow> h) rs)) / of_nat n))),
          minimum = (if n = 0 then 0 else Min S),
          maximum = (if n = 0 then 0 else Max S)\<rparr>)"
proof -
  let ?hs = "truthy (map f rs)"
  have len: "length ?hs = length (filter (\<lambda>r. f r \<noteq> None \<and> f r \<noteq> Some 0) rs)"
    by (rule length_truthy_map)
  have S: "set ?hs = {h. h \<noteq> 0 \<and> (\<exists>r\<in>set rs. f r = Some h)}"
    by (auto simp: set_truthy intro: rev_image_eqI)
  have sum: "sum_list ?hs = sum_list (map (\<lambda>r. case f r of None \<Rightarrow> 0 | Some h \<Rightarrow> h) rs)"
    by (simp add: sum_list_truthy comp_def)
  have "stats_of ?hs =
     (let n = length ?hs; S = set ?hs
      in \<lparr>average = (if n = 0 then 0 else py_round2 (fl (of_int (sum_list ?hs) / of_nat n))),
          minimum = (if n = 0 then 0 else Min S),
          maximum = (if n = 0 then 0 else Max S)\<rparr>)"
  proof (cases "?hs = []")
    case True
    then show ?thesis
      by (simp add: stats_of_def Let_def min_or_zero_def max_or_zero_def)
  next
    case False
    then show ?thesis
      by (simp add: stats_of_def Let_def min_or_zero_Min max_or_zero_Max)
  qed
  then show ?thesis
    by (simp only: len S sum)
qed

lemma weather_conditions_lookup:
  "map_of (fold count_condition (truthy_strings (map weather_main rs)) []) w =
     (if w \<noteq> [] \<and> (\<exists>r\<in>set rs. weather_main r = Some w)
      then Some (length (filter (\<lambda>r. weather_main r = Some w) rs)) else None)"
  by (auto simp: map_of_count_condition set_truthy_strings count_list_truthy_strings dict_get_def
      image_iff)

lemma records_db_silent:
  "query_records db_silent 1 =
     [reading 1 (Some 10) None (Some 0) (Some ''Clear'') (mk_datetime 2026 1 10 8 0 0 0),
      reading 2 (Some 12) (Some 0) None (Some ''Rain'') (mk_datetime 2026 1 11 8 0 0 0)]"
  by (simp add: query_records_def db_silent_def reading_def)

lemma records_db_patterns:
  "query_records db_patterns 1 =
     [reading 1 (Some 10) (Some 40) (Some 1010) (Some ''Clear'') (mk_datetime 2026 1 10 8 0 0 0),
      reading 2 (Some 12) (Some 60) None (Some ''Rain'') (mk_datetime 2026 1 11 8 0 0 0),
      reading 3 (Some 11) None (Some 0) (Some ''Rain'') (mk_datetime 2026 1 12 8 0 0 0)]"
  by (simp add: query_records_def db_patterns_def reading_def)

section \<open>Humidity and pressure patterns\<close>

text \<open>
  Claim C10. When the city has at least one record and every humidity is \<open>None\<close> or
  0, the humidity statistics are average 0, minimum 0 and maximum 0 (the same record a
  city measuring nothing but zeros gets), and \<open>total_records\<close> still counts every
  record of the city. Pressure behaves likewise.
\<close>

theorem C10_all_falsy_gives_zero_stats:
  "(query_records db c \<noteq> [] \<and> (\<forall>r\<in>set (query_records db c). humidity r = None \<or> humidity r = Some 0)
     \<longrightarrow> (\<exists>p. get_humidity_pressure_patterns db c = Some p
              \<and> humidity_stats p = \<lparr>average = 0, minimum = 0, maximum = 0\<rparr>
              \<and> total_records p = length (query_records db c)))
   \<and> (query_records db c \<noteq> [] \<and> (\<forall>r\<in>set (query_records db c). pressure r = None \<or> pressure r = Some 0)
     \<longrightarrow> (\<exists>p. get_humidity_pressure_patterns db c = Some p
              \<and> pressure_stats p = \<lparr>average = 0, minimum = 0, maximum = 0\<rparr>
              \<and> total_records p = length (query_records db c)))"
proof -
  have h: "truthy (map f (query_records db c)) = []"
    if "\<forall>r\<in>set (query_records db c). f r = None \<or> f r = Some 0" for f :: "WeatherRecord \<Rightarrow> int option"
    using that by (simp add: truthy_empty_iff)
  have z: "stats_of [] = \<lparr>average = 0, minimum = 0, maximum = 0\<rparr>"
    by (simp add: stats_of_def min_or_zero_def max_or_zero_def)
  show ?thesis
    by (auto simp: get_humidity_pressure_patterns_def Let_def h z)
qed

text \<open>The claim at a city whose two records hold no humidity or pressure reading
  other than \<open>None\<close> and 0.\<close>

theorem C10_witness:
  "query_records db_silent 1 \<noteq> []
   \<and> (\<exists>p. get_humidity_pressure_patterns db_silent 1 = Some p
          \<and> humidity_stats p = \<lparr>average = 0, minimum = 0, maximum = 0\<rparr>
          \<and> pressure_stats p = \<lparr>average = 0, minimum = 0, maximum = 0\<rparr>
          \<and> total_records p = 2)"
proof -
  have ne: "query_records db_silent 1 \<noteq> []"
    by (simp add: records_db_silent)
  have h: "\<forall>r\<in>set (query_records db_silent 1). humidity r = None \<or> humidity r = Some 0"
    by (simp add: records_db_silent reading_def)
  have p: "\<forall>r\<in>set (query_records db_silent 1). pressure r = None \<or> pressure r = Some 0"
    by (simp add: records_db_silent reading_def)
  have len: "length (query_records db_silent 1) = 2"
    by (simp add: records_db_silent)
  show ?thesis
    using C10_all_falsy_gives_zero_stats [of db_silent 1] ne h p len by auto
qed

text \<open>
  Claim C7, as amended. A city with no record gives \<open>None\<close>. Otherwise the
  humidity statistics range over the humidities of all the city's records that are
  neither \<open>None\<close> nor 0: with \<open>n\<close> their number and \<open>S\<close> their set, the
  average is the float nearest to their sum over \<open>n\<close>, rounded to two decimals by
  \<open>round\<close>, the minimum and maximum
  are those of \<open>S\<close> as integers, and all three are 0 when \<open>n = 0\<close>; pressure
  likewise. \<open>weather_conditions\<close> has distinct keys and maps every label that is not
  empty and occurs as a \<open>weather_main\<close> to the number of records carrying it; no
  other label is a key, so records whose \<open>weather_main\<close> is \<open>None\<close> or the empty
  string are not counted. Humidities 40 and 60 give average 50, minimum 40, maximum 60.
\<close>

theorem C7_patterns:
  "(query_records db c = [] \<longrightarrow> get_humidity_pressure_patterns db c = None)
   \<and> (query_records db c \<noteq> [] \<longrightarrow>
        (\<exists>p. get_humidity_pressure_patterns db c = Some p
          \<and> humidity_stats p =
              (let n = length (filter (\<lambda>r. humidity r \<noteq> None \<and> humidity r \<noteq> Some 0) (query_records db c));
                   S = {h. h \<noteq> 0 \<and> (\<exists>r\<in>set (query_records db c). humidity r = Some h)}
               in \<lparr>average = (if n = 0 then 0 else
                      py_round2 (fl (of_int (sum_list (map (\<lambda>r. case humidity r of None \<Rightarrow> 0 | Some h \<Rightarrow> h)
                                   (query_records db c))) / of_nat n))),
                   minimum = (if n = 0 then 0 else Min S),
                   maximum = (if n = 0 then 0 else Max S)\<rparr>)
          \<and> pressure_stats p =
              (let n = length (filter (\<lambda>r. pressure r \<noteq> None \<and> pressure r \<noteq> Some 0) (query_records db c));
                   S = {h. h \<noteq> 0 \<and> (\<exists>r\<in>set (query_records db c). pressure r = Some h)}
               in \<lparr>average = (if n = 0 then 0 else
                      py_round2 (fl (of_int (sum_list (map (\<lambda>r. case pressure r of None \<Rightarrow> 0 | Some h \<Rightarrow> h)
                                   (query_records db c))) / of_nat n))),
                   minimum = (if n = 0 then 0 else Min S),
                   maximum = (if n = 0 then 0 else Max S)\<rparr>)
          \<and> distinct (map fst (weather_conditions p))
          \<and> (\<forall>w. map_of (weather_conditions p) w =
                (if w \<noteq> [] \<and> (\<exists>r\<in>set (query_records db c). weather_main r = Some w)
                 then Some (length (filter (\<lambda>r. weather_main r = Some w) (query_records db c)))
                 else None))
          \<and> total_records p = length (query_records db c)))
   \<and> stats_of (truthy [Some 40, Some 60]) = \<lparr>average = 50, minimum = 40, maximum = 60\<rparr>"
proof (intro conjI impI)
  show "get_humidity_pressure_patterns db c = None" if "query_records db c = []"
    using that by (simp add: get_humidity_pressure_patterns_def)
  show "stats_of (truthy [Some 40, Some 60]) = \<lparr>average = 50, minimum = 40, maximum = 60\<rparr>"
    by (simp add: stats_of_def truthy_def min_or_zero_def max_or_zero_def fl_small py_round2_small)
  assume ne: "query_records db c \<noteq> []"
  let ?rs = "query_records db c"
  let ?p = "\<lparr>humidity_stats = stats_of (truthy (map humidity ?rs)),
             pressure_stats = stats_of (truthy (map pressure ?rs)),
             weather_conditions = fold count_condition (truthy_strings (map weather_main ?rs)) [],
             total_records = length ?rs\<rparr>"
  have p: "get_humidity_pressure_patterns db c = Some ?p"
    using ne by (simp add: get_humidity_pressure_patterns_def Let_def)
  have d: "distinct (map fst (weather_conditions ?p))"
    by (simp add: distinct_count_condition)
  have w: "\<forall>w. map_of (weather_conditions ?p) w =
                (if w \<noteq> [] \<and> (\<exists>r\<in>set ?rs. weather_main r = Some w)
                 then Some (length (filter (\<lambda>r. weather_main r = Some w) ?rs))
                 else None)"
    by (simp add: weather_conditions_lookup)
  have h: "humidity_stats ?p =
              (let n = length (filter (\<lambda>r. humidity r \<noteq> None \<and> humidity r \<noteq> Some 0) (query_records db c));
                   S = {h. h \<noteq> 0 \<and> (\<exists>r\<in>set (query_records db c). humidity r = Some h)}
               in \<lparr>average = (if n = 0 then 0 else
                      py_round2 (fl (of_int (sum_list (map (\<lambda>r. case humidity r of None \<Rightarrow> 0 | Some h \<Rightarrow> h)
                                   (query_records db c))) / of_nat n))),
                   minimum = (if n = 0 then 0 else Min S),
                   maximum = (if n = 0 then 0 else Max S)\<rparr>)"
    using stats_of_truthy [of humidity ?rs] by simp
  have pr: "pressure_stats ?p =
              (let n = length (filter (\<lambda>r. pressure r \<noteq> None \<and> pressure r \<noteq> Some 0) (query_records db c));
                   S = {h. h \<noteq> 0 \<and> (\<exists>r\<in>set (query_records db c). pressure r = Some h)}
               in \<lparr>average = (if n = 0 then 0 else
                      py_round2 (fl (of_int (sum_list (map (\<lambda>r. case pressure r of None \<Rightarrow> 0 | Some h \<Rightarrow> h)
                                   (query_records db c))) / of_nat n))),
                   minimum = (if n = 0 then 0 else Min S),
                   maximum = (if n = 0 then 0 else Max S)\<rparr>)"
    using stats_of_truthy [of pressure ?rs] by simp
  have t: "total_records ?p = length ?rs"
    by simp
  from p h pr d w t
  show "\<exists>p. get_humidity_pressure_patterns db c = Some p
          \<and> humidity_stats p =
              (let n = length (filter (\<lambda>r. humidity r \<noteq> None \<and> humidity r \<noteq> Some 0) (query_records db c));
                   S = {h. h \<noteq> 0 \<and> (\<exists>r\<in>set (query_records db c). humidity r = Some h)}
               in \<lparr>average = (if n = 0 then 0 else
                      py_round2 (fl (of_int (sum_list (map (\<lambda>r. case humidity r of None \<Rightarrow> 0 | Some h \<Rightarrow> h)
                                   (query_records db c))) / of_nat n))),
                   minimum = (if n = 0 then 0 else Min S),
                   maximum = (if n = 0 then 0 else Max S)\<rparr>)
          \<and> pressure_stats p =
              (let n = length (filter (\<lambda>r. pressure r \<noteq> None \<and> pressure r \<noteq> Some 0) (query_records db c));
                   S = {h. h \<noteq> 0 \<and> (\<exists>r\<in>set (query_records db c). pressure r = Some h)}
               in \<lparr>average = (if n = 0 then 0 else
                      py_round2 (fl (of_int (sum_list (map (\<lambda>r. case pressure r of None \<Rightarrow> 0 | Some h \<Rightarrow> h)
                                   (query_records db c))) / of_nat n))),
                   minimum = (if n = 0 then 0 else Min S),
                   maximum = (if n = 0 then 0 else Max S)\<rparr>)
          \<and> distinct (map fst (weather_conditions p))
          \<and> (\<forall>w. map_of (weather_conditions p) w =
                (if w \<noteq> [] \<and> (\<exists>r\<in>set (query_records db c). weather_main r = Some w)
                 then Some (length (filter (\<lambda>r. weather_main r = Some w) (query_records db c)))
                 else None))
          \<and> total_records p = length (query_records db c)"
    by blast
qed

text \<open>The amended claim at a city with three records, two of them \<open>Rain\<close>.\<close>

theorem C7_witness:
  "query_records db_patterns 1 \<noteq> []
   \<and> (\<exists>p. get_humidity_pressure_patterns db_patterns 1 = Some p
          \<and> distinct (map fst (weather_conditions p))
          \<and> map_of (weather_conditions p) ''Rain'' = Some 2
          \<and> map_of (weather_conditions p) ''Snow'' = None
          \<and> total_records p = 3)"
proof -
  have ne: "query_records db_patterns 1 \<noteq> []"
    by (simp add: records_db_patterns)
  from C7_patterns [of db_patterns 1] ne
  obtain p where p: "get_humidity_pressure_patterns db_patterns 1 = Some p"
    and d: "distinct (map fst (weather_conditions p))"
    and w: "\<And>w. map_of (weather_conditions p) w =
                (if w \<noteq> [] \<and> (\<exists>r\<in>set (query_records db_patterns 1). weather_main r = Some w)
                 then Some (length (filter (\<lambda>r. weather_main r = Some w) (query_records db_patterns 1)))
                 else None)"
    and t: "total_records p = length (query_records db_patterns 1)"
    by blast
  have "map_of (weather_conditions p) ''Rain'' = Some 2"
    by (simp add: w records_db_patterns reading_def)
  moreover have "map_of (weather_conditions p) ''Snow'' = None"
    by (simp add: w records_db_patterns reading_def)
  moreover have "total_records p = 3"
    by (simp add: t records_db_patterns)
  ultimately show ?thesis using ne p d by blast
qed

text \<open>
  Claim C7 as first stated maps each distinct \<open>weather_main\<close> value to its count.
  With one record labelled \<open>Rain\<close> and one labelled by the empty string, the
  frequency map has the single key \<open>Rain\<close>: the empty label occurs once and is not
  in the map.
\<close>

theorem C7_counterexample:
  "map weather_main (query_records db_blank_label 1) = [Some ''Rain'', Some []]
   \<and> map_option weather_conditions (get_humidity_pressure_patterns db_blank_label 1)
       = Some [(''Rain'', 1)]"
  by (simp add: get_humidity_pressure_patterns_def db_blank_label_def query_records_def reading_def
      Let_def truthy_strings_def count_condition_def dict_get_def)

text \<open>The whole result for the city with three records.\<close>

lemma eval_patterns:
  "get_humidity_pressure_patterns db_patterns 1 =
     Some \<lparr>humidity_stats = \<lparr>average = 50, minimum = 40, maximum = 60\<rparr>,
           pressure_stats = \<lparr>average = 1010, minimum = 1010, maximum = 1010\<rparr>,
           weather_conditions = [(''Clear'', 1), (''Rain'', 2)],
           total_records = 3\<rparr>"
  by (simp add: get_humidity_pressure_patterns_def db_patterns_def query_records_def reading_def
      Let_def stats_of_def truthy_def truthy_strings_def min_or_zero_def max_or_zero_def
      fl_small py_round2_small count_condition_def dict_get_def)

text \<open>Forty readings, 33 of 40 and 7 of 41: their mean is 40.175, and the average
  reported is the double nearest to 40.17.\<close>

lemma average_of_forty_readings:
  "stats_of (replicate 33 40 @ replicate 7 41) = \<lparr>average = fl (4017 / 100), minimum = 40, maximum = 41\<rparr>"
proof -
  define xs :: "int list" where "xs = replicate 33 40 @ replicate 7 41"
  have s: "sum_list xs = 1607" "length xs = 40" "xs \<noteq> []"
    by (simp_all add: xs_def sum_list_replicate)
  have m: "min_or_zero xs = 40" "max_or_zero xs = 41"
    by (simp_all add: xs_def min_or_zero_Min max_or_zero_Max)
  have "stats_of xs = \<lparr>average = fl (4017 / 100), minimum = 40, maximum = 41\<rparr>"
    by (simp add: stats_of_def s m round_of_nearest_double)
  then show ?thesis
    by (simp only: xs_def)
qed

section \<open>Formatting and the comparison loop\<close>

lemma digit_char_0: "digit_char 0 = CHR ''0''"
  by code_simp

lemma str_nat_1digit: "n < 10 \<Longrightarrow> str_nat n = [digit_char n]"
  by (simp add: str_nat.simps)

lemma str_nat_2digit: "10 \<le> n \<Longrightarrow> n < 100 \<Longrightarrow> str_nat n = [digit_char (n div 10), digit_char (n mod 10)]"
  by (subst str_nat.simps) (simp add: str_nat_1digit)

lemma str_nat_3digit:
  "100 \<le> n \<Longrightarrow> n < 1000 \<Longrightarrow>
   str_nat n = [digit_char (n div 100), digit_char (n div 10 mod 10), digit_char (n mod 10)]"
  by (subst str_nat.simps) (simp add: str_nat_2digit div_mult2_eq [symmetric])

lemma str_nat_4digit:
  "1000 \<le> n \<Longrightarrow> n < 10000 \<Longrightarrow>
   str_nat n = [digit_char (n div 1000), digit_char (n div 100 mod 10), digit_char (n div 10 mod 10),
                digit_char (n mod 10)]"
  by (subst str_nat.simps) (simp add: str_nat_3digit div_mult2_eq [symmetric])

lemma zero_pad_2: "n < 100 \<Longrightarrow> zero_pad 2 n = [digit_char (n div 10), digit_char (n mod 10)]"
  by (cases "n < 10") (simp_all add: zero_pad_def str_nat_1digit str_nat_2digit digit_char_0)

lemma zero_pad_4:
  "1000 \<le> n \<Longrightarrow> n < 10000 \<Longrightarrow>
   zero_pad 4 n = [digit_char (n div 1000), digit_char (n div 100 mod 10), digit_char (n div 10 mod 10),
                   digit_char (n mod 10)]"
  by (simp add: zero_pad_def str_nat_4digit)

lemma strftime_datetime_format:
  assumes "1000 \<le> year d" "year d \<le> 9999" "month d < 100" "day d < 100" "hour d < 100"
    "minute d < 100" "second d < 100"
  shows "strftime_datetime d =
     [digit_char (year d div 1000), digit_char (year d div 100 mod 10),
      digit_char (year d div 10 mod 10), digit_char (year d mod 10), CHR ''-'',
      digit_char (month d div 10), digit_char (month d mod 10), CHR ''-'',
      digit_char (day d div 10), digit_char (day d mod 10), CHR '' '',
      digit_char (hour d div 10), digit_char (hour d mod 10), CHR '':'',
      digit_char (minute d div 10), digit_char (minute d mod 10), CHR '':'',
      digit_char (second d div 10), digit_char (second d mod 10)]"
  using assms by (simp add: strftime_datetime_def strftime_date_def zero_pad_2 zero_pad_4)

lemma compare_step_keys:
  "fst ` set (compare_step nm db n d) =
     fst ` set d \<union> (if \<exists>c. query_city db n = Some c \<and> query_records db (cid c) \<noteq> [] then {n} else {})"
  by (auto simp: compare_step_def Let_def keys_dict_set split: option.splits)

lemma compare_fold_keys:
  "fst ` set (fold (compare_step nm db) names d) =
     fst ` set d \<union> {n \<in> set names. \<exists>c. query_city db n = Some c \<and> query_records db (cid c) \<noteq> []}"
proof (induction names arbitrary: d)
  case Nil
  then show ?case by simp
next
  case (Cons a names)
  show ?case
    by (simp add: Cons.IH compare_step_keys) blast
qed

lemma compare_step_distinct:
  "distinct (map fst d) \<Longrightarrow> distinct (map fst (compare_step nm db n d))"
  by (simp add: compare_step_def Let_def distinct_dict_set split: option.splits)

lemma compare_fold_distinct:
  "distinct (map fst d) \<Longrightarrow> distinct (map fst (fold (compare_step nm db) names d))"
  by (induction names arbitrary: d) (simp_all add: compare_step_distinct)

lemma compare_step_lookup:
  "map_of (compare_step nm db a d) n =
     (case query_city db n of
        None \<Rightarrow> map_of d n
      | Some c \<Rightarrow> if n = a \<and> query_records db (cid c) \<noteq> []
                  then Some (comparison_of nm c (query_records db (cid c))) else map_of d n)"
  by (auto simp: compare_step_def Let_def map_of_dict_set split: option.splits)

lemma compare_fold_lookup:
  "map_of (fold (compare_step nm db) names d) n =
     (case query_city db n of
        None \<Rightarrow> map_of d n
      | Some c \<Rightarrow> if n \<in> set names \<and> query_records db (cid c) \<noteq> []
                  then Some (comparison_of nm c (query_records db (cid c))) else map_of d n)"
proof (induction names arbitrary: d)
  case Nil
  then show ?case by (simp split: option.splits)
next
  case (Cons a names)
  show ?case
    by (simp add: Cons.IH compare_step_lookup split: option.splits)
qed

lemma query_city_db_compare:
  "query_city db_compare ''Tokyo'' = Some tokyo"
  "query_city db_compare ''London'' = Some london"
  "query_city db_compare ''Paris'' = Some paris"
  "query_city db_compare ''Atlantis'' = None"
  by (simp_all add: query_city_def db_compare_def tokyo_def london_def paris_def)

lemma query_records_db_compare:
  "query_records db_compare 1 =
     [reading 1 (Some 10) (Some 40) (Some 1010) (Some ''Clear'') (mk_datetime 2026 1 15 9 30 0 0),
      reading 3 (Some 12) (Some 60) (Some 1020) (Some ''Clouds'') (mk_datetime 2026 1 10 8 0 0 0)]"
  "query_records db_compare 2 =
     [(reading 2 (Some 4) (Some 80) (Some 1000) (Some ''Rain'') (mk_datetime 2026 1 12 7 0 0 0))\<lparr>city_id := 2\<rparr>]"
  "query_records db_compare 3 = []"
  by (simp_all add: query_records_def db_compare_def reading_def)

lemma cid_cities: "cid tokyo = 1" "cid london = 2" "cid paris = 3"
  by (simp_all add: tokyo_def london_def paris_def)

section \<open>Multi-city comparison\<close>

text \<open>
  Claim C5. The keys of the comparison are exactly the given names for which the first
  city of that name exists and has at least one record; the other names are skipped,
  and the function has no failure case. Each key occurs once. With two distinct names
  that resolve and one that matches no city, the result has exactly the two keys.
\<close>

theorem C5_compare_keys:
  "fst ` set (compare_cities nm db city_names) =
     {n \<in> set city_names. \<exists>c. query_city db n = Some c \<and> query_records db (cid c) \<noteq> []}
   \<and> distinct (map fst (compare_cities nm db city_names))
   \<and> (a \<noteq> b
       \<and> (\<exists>c. query_city db a = Some c \<and> query_records db (cid c) \<noteq> [])
       \<and> (\<exists>c. query_city db b = Some c \<and> query_records db (cid c) \<noteq> [])
       \<and> query_city db z = None
      \<longrightarrow> map fst (compare_cities nm db [a, b, z]) = [a, b])"
proof (intro conjI impI)
  show k: "fst ` set (compare_cities nm db city_names) =
     {n \<in> set city_names. \<exists>c. query_city db n = Some c \<and> query_records db (cid c) \<noteq> []}"
    for city_names
    by (simp add: compare_cities_def compare_fold_keys)
  show "distinct (map fst (compare_cities nm db city_names))"
    by (simp add: compare_cities_def compare_fold_distinct)
  assume h: "a \<noteq> b
       \<and> (\<exists>c. query_city db a = Some c \<and> query_records db (cid c) \<noteq> [])
       \<and> (\<exists>c. query_city db b = Some c \<and> query_records db (cid c) \<noteq> [])
       \<and> query_city db z = None"
  then show "map fst (compare_cities nm db [a, b, z]) = [a, b]"
    by (auto simp: compare_cities_def compare_step_def Let_def)
qed

text \<open>Two stored cities with records and one name that is not stored give two keys;
  a stored city without records gives none.\<close>

theorem C5_witness:
  "map fst (compare_cities sequential db_compare [''Tokyo'', ''London'', ''Atlantis'']) = [''Tokyo'', ''London'']
   \<and> fst ` set (compare_cities sequential db_compare [''Paris'', ''Tokyo'']) = {''Tokyo''}"
proof -
  have a: "\<exists>c. query_city db_compare ''Tokyo'' = Some c \<and> query_records db_compare (cid c) \<noteq> []"
    by (simp add: query_city_db_compare cid_cities query_records_db_compare)
  have b: "\<exists>c. query_city db_compare ''London'' = Some c \<and> query_records db_compare (cid c) \<noteq> []"
    by (simp add: query_city_db_compare cid_cities query_records_db_compare)
  have p: "\<not> (\<exists>c. query_city db_compare ''Paris'' = Some c \<and> query_records db_compare (cid c) \<noteq> [])"
    by (simp add: query_city_db_compare cid_cities query_records_db_compare)
  have z: "query_city db_compare ''Atlantis'' = None"
    by (simp add: query_city_db_compare)
  have ne: "''Tokyo'' \<noteq> ''London''"
    by simp
  have 1: "map fst (compare_cities sequential db_compare [''Tokyo'', ''London'', ''Atlantis'']) = [''Tokyo'', ''London'']"
    using C5_compare_keys [of sequential db_compare "[]" "''Tokyo''" "''London''" "''Atlantis''"] a b z ne
    by blast
  have "fst ` set (compare_cities sequential db_compare [''Paris'', ''Tokyo'']) =
          {n \<in> set [''Paris'', ''Tokyo'']. \<exists>c. query_city db_compare n = Some c \<and> query_records db_compare (cid c) \<noteq> []}"
    using C5_compare_keys [of sequential db_compare "[''Paris'', ''Tokyo'']" "''Tokyo''" "''London''" "''Atlantis''"]
    by blast
  also have "\<dots> = {''Tokyo''}"
    using a p by auto
  finally show ?thesis using 1 by simp
qed

text \<open>
  Claim C6. The \<open>latest_record\<close> of a resolved city is the \<open>recorded_at\<close> of the
  last element of the city's records in the order the storage yields them, formatted
  by \<open>strftime\<close>; no maximum is taken. For a four-digit year the format is
  \<open>YYYY-MM-DD HH:MM:SS\<close>, every field padded with zeros.
\<close>

theorem C6_latest_record:
  "(map_of (compare_cities nm db city_names) n = Some e \<longrightarrow>
      (\<exists>c. query_city db n = Some c \<and> query_records db (cid c) \<noteq> []
         \<and> latest_record e = Some (strftime_datetime (recorded_at (last (query_records db (cid c)))))))
   \<and> (1000 \<le> year d \<and> year d \<le> 9999 \<and> month d < 100 \<and> day d < 100 \<and> hour d < 100
        \<and> minute d < 100 \<and> second d < 100 \<longrightarrow>
      strftime_datetime d =
        [digit_char (year d div 1000), digit_char (year d div 100 mod 10),
         digit_char (year d div 10 mod 10), digit_char (year d mod 10), CHR ''-'',
         digit_char (month d div 10), digit_char (month d mod 10), CHR ''-'',
         digit_char (day d div 10), digit_char (day d mod 10), CHR '' '',
         digit_char (hour d div 10), digit_char (hour d mod 10), CHR '':'',
         digit_char (minute d div 10), digit_char (minute d mod 10), CHR '':'',
         digit_char (second d div 10), digit_char (second d mod 10)])"
proof (intro conjI impI)
  assume "map_of (compare_cities nm db city_names) n = Some e"
  then show "\<exists>c. query_city db n = Some c \<and> query_records db (cid c) \<noteq> []
         \<and> latest_record e = Some (strftime_datetime (recorded_at (last (query_records db (cid c)))))"
    by (auto simp: compare_cities_def compare_fold_lookup comparison_of_def
        split: option.splits if_splits)
next
  assume "1000 \<le> year d \<and> year d \<le> 9999 \<and> month d < 100 \<and> day d < 100 \<and> hour d < 100
        \<and> minute d < 100 \<and> second d < 100"
  then show "strftime_datetime d =
        [digit_char (year d div 1000), digit_char (year d div 100 mod 10),
         digit_char (year d div 10 mod 10), digit_char (year d mod 10), CHR ''-'',
         digit_char (month d div 10), digit_char (month d mod 10), CHR ''-'',
         digit_char (day d div 10), digit_char (day d mod 10), CHR '' '',
         digit_char (hour d div 10), digit_char (hour d mod 10), CHR '':'',
         digit_char (minute d div 10), digit_char (minute d mod 10), CHR '':'',
         digit_char (second d div 10), digit_char (second d mod 10)]"
    by (simp add: strftime_datetime_format)
qed

text \<open>A city whose later reading is stored first: \<open>latest_record\<close> is the time of
  the reading stored last, the earlier one.\<close>

theorem C6_witness:
  "(\<exists>e. map_of (compare_cities sequential db_compare [''Tokyo'', ''Atlantis'']) ''Tokyo'' = Some e
        \<and> latest_record e = Some ''2026-01-10 08:00:00'')
   \<and> map (\<lambda>r. strftime_datetime (recorded_at r)) (query_records db_compare 1)
        = [''2026-01-15 09:30:00'', ''2026-01-10 08:00:00'']"
proof -
  have s: "map (\<lambda>r. strftime_datetime (recorded_at r)) (query_records db_compare 1)
        = [''2026-01-15 09:30:00'', ''2026-01-10 08:00:00'']"
    unfolding query_records_db_compare by code_simp
  have l: "strftime_datetime (recorded_at (last (query_records db_compare 1))) = ''2026-01-10 08:00:00''"
    unfolding query_records_db_compare by code_simp
  obtain e where e: "map_of (compare_cities sequential db_compare [''Tokyo'', ''Atlantis'']) ''Tokyo'' = Some e"
    by (simp add: compare_cities_def compare_step_def query_city_db_compare cid_cities
        query_records_db_compare Let_def)
  from C6_latest_record [of sequential db_compare "[''Tokyo'', ''Atlantis'']" "''Tokyo''" e] e
  have "latest_record e = Some (strftime_datetime (recorded_at (last (query_records db_compare 1))))"
    by (auto simp: query_city_db_compare cid_cities)
  then have "latest_record e = Some ''2026-01-10 08:00:00''"
    by (simp only: l)
  then show ?thesis using e s by blast
qed

section \<open>Historical export\<close>

lemma dt_tuple_inj: "dt_tuple a = dt_tuple b \<Longrightarrow> a = b"
  for a b :: datetime
  by (cases a, cases b) (simp add: dt_tuple_def)

lemma dt_le_antisym: "dt_le a b \<Longrightarrow> dt_le b a \<Longrightarrow> a = b"
  for a b :: datetime
  by (simp add: dt_le_def dt_tuple_inj)

lemma dt_le_refl: "dt_le a a"
  by (simp add: dt_le_def)

lemma sorted_order_by:
  "sorted (map (\<lambda>r. dt_tuple (recorded_at r)) (order_by_recorded_at rows))"
  by (simp add: order_by_recorded_at_def)

lemma mset_order_by: "mset (order_by_recorded_at rows) = mset rows"
  by (simp add: order_by_recorded_at_def)

lemma order_by_single: "order_by_recorded_at [r] = [r]"
  by (simp add: order_by_recorded_at_def)

text \<open>
  Claim C2, as amended. The export is the projection \<open>export_row\<close> of the records of
  the city whose \<open>recorded_at\<close> lies between the bounds, both inclusive, a bound that
  is \<open>None\<close> being dropped; each record appears as often as it is stored, the rows
  ascend by \<open>recorded_at\<close>, and \<open>recorded_at\<close> is formatted by \<open>strftime\<close>
  (\<open>YYYY-MM-DD HH:MM:SS\<close> for a four-digit year). In particular, when both bounds are
  the timestamp \<open>t\<close> and the city stores exactly one record stamped \<open>t\<close>, the
  export is that one record.
\<close>

theorem C2_export:
  "(\<exists>rows. export_historical_data db c start_date end_date = map export_row rows
      \<and> mset rows = filter_mset
            (\<lambda>r. city_id r = c
               \<and> (case start_date of None \<Rightarrow> True | Some s \<Rightarrow> dt_tuple s \<le> dt_tuple (recorded_at r))
               \<and> (case end_date of None \<Rightarrow> True | Some e \<Rightarrow> dt_tuple (recorded_at r) \<le> dt_tuple e))
            (mset (weather_records db))
      \<and> sorted (map (\<lambda>r. dt_tuple (recorded_at r)) rows))
   \<and> h_recorded_at (export_row r) = strftime_datetime (recorded_at r)
   \<and> (1000 \<le> year d \<and> year d \<le> 9999 \<and> month d < 100 \<and> day d < 100 \<and> hour d < 100
        \<and> minute d < 100 \<and> second d < 100 \<longrightarrow>
      strftime_datetime d =
        [digit_char (year d div 1000), digit_char (year d div 100 mod 10),
         digit_char (year d div 10 mod 10), digit_char (year d mod 10), CHR ''-'',
         digit_char (month d div 10), digit_char (month d mod 10), CHR ''-'',
         digit_char (day d div 10), digit_char (day d mod 10), CHR '' '',
         digit_char (hour d div 10), digit_char (hour d mod 10), CHR '':'',
         digit_char (minute d div 10), digit_char (minute d mod 10), CHR '':'',
         digit_char (second d div 10), digit_char (second d mod 10)])
   \<and> (filter (\<lambda>x. city_id x = c \<and> recorded_at x = t) (weather_records db) = [r] \<longrightarrow>
        export_historical_data db c (Some t) (Some t) = [export_row r])"
proof (intro conjI impI)
  let ?P = "\<lambda>r. city_id r = c \<and> in_range start_date end_date (recorded_at r)"
  let ?rows = "order_by_recorded_at (filter ?P (weather_records db))"
  have "export_historical_data db c start_date end_date = map export_row ?rows"
    by (simp add: export_historical_data_def)
  moreover have "mset ?rows = filter_mset
            (\<lambda>r. city_id r = c
               \<and> (case start_date of None \<Rightarrow> True | Some s \<Rightarrow> dt_tuple s \<le> dt_tuple (recorded_at r))
               \<and> (case end_date of None \<Rightarrow> True | Some e \<Rightarrow> dt_tuple (recorded_at r) \<le> dt_tuple e))
            (mset (weather_records db))"
    by (cases start_date; cases end_date) (simp_all add: mset_order_by in_range_def dt_le_def)
  moreover have "sorted (map (\<lambda>r. dt_tuple (recorded_at r)) ?rows)"
    by (rule sorted_order_by)
  ultimately show "\<exists>rows. export_historical_data db c start_date end_date = map export_row rows
      \<and> mset rows = filter_mset
            (\<lambda>r. city_id r = c
               \<and> (case start_date of None \<Rightarrow> True | Some s \<Rightarrow> dt_tuple s \<le> dt_tuple (recorded_at r))
               \<and> (case end_date of None \<Rightarrow> True | Some e \<Rightarrow> dt_tuple (recorded_at r) \<le> dt_tuple e))
            (mset (weather_records db))
      \<and> sorted (map (\<lambda>r. dt_tuple (recorded_at r)) rows)"
    by blast
next
  show "h_recorded_at (export_row r) = strftime_datetime (recorded_at r)"
    by (simp add: export_row_def)
next
  assume "1000 \<le> year d \<and> year d \<le> 9999 \<and> month d < 100 \<and> day d < 100 \<and> hour d < 100
        \<and> minute d < 100 \<and> second d < 100"
  then show "strftime_datetime d =
        [digit_char (year d div 1000), digit_char (year d div 100 mod 10),
         digit_char (year d div 10 mod 10), digit_char (year d mod 10), CHR ''-'',
         digit_char (month d div 10), digit_char (month d mod 10), CHR ''-'',
         digit_char (day d div 10), digit_char (day d mod 10), CHR '' '',
         digit_char (hour d div 10), digit_char (hour d mod 10), CHR '':'',
         digit_char (minute d div 10), digit_char (minute d mod 10), CHR '':'',
         digit_char (second d div 10), digit_char (second d mod 10)]"
    by (simp add: strftime_datetime_format)
next
  assume one: "filter (\<lambda>x. city_id x = c \<and> recorded_at x = t) (weather_records db) = [r]"
  have "in_range (Some t) (Some t) u \<longleftrightarrow> u = t" for u
    by (auto simp: in_range_def dt_le_refl dt_le_antisym)
  then have "filter (\<lambda>x. city_id x = c \<and> in_range (Some t) (Some t) (recorded_at x)) (weather_records db) = [r]"
    using one by simp
  then show "export_historical_data db c (Some t) (Some t) = [export_row r]"
    by (simp add: export_historical_data_def order_by_single)
qed

text \<open>
  Claim C2 as first stated takes both bounds to be the calendar date of the single
  stored record. \<open>validate_date_format\<close> turns the date 2026-01-19 into midnight of
  that day; the city's only record is stamped 12:30 on that day, and the export with
  both bounds at that midnight is empty.
\<close>

theorem C2_counterexample:
  "validate_date_format ''2026-01-19'' = Inr (mk_datetime 2026 1 19 0 0 0 0)
   \<and> map (\<lambda>r. sql_date (recorded_at r)) (query_records db_noon 1) = [(2026, 1, 19)]
   \<and> export_historical_data db_noon 1 (Some (mk_datetime 2026 1 19 0 0 0 0))
        (Some (mk_datetime 2026 1 19 0 0 0 0)) = []"
proof (intro conjI)
  show "validate_date_format ''2026-01-19'' = Inr (mk_datetime 2026 1 19 0 0 0 0)"
    by code_simp
  show "map (\<lambda>r. sql_date (recorded_at r)) (query_records db_noon 1) = [(2026, 1, 19)]"
    by (simp add: query_records_def db_noon_def reading_def sql_date_def mk_datetime_def)
  show "export_historical_data db_noon 1 (Some (mk_datetime 2026 1 19 0 0 0 0))
        (Some (mk_datetime 2026 1 19 0 0 0 0)) = []"
    by (simp add: export_historical_data_def db_noon_def reading_def in_range_def dt_le_def
        dt_tuple_def mk_datetime_def order_by_recorded_at_def)
qed

text \<open>The amended claim at the city of two records: with both bounds at the time of
  one of them, the export is that record.\<close>

theorem C2_witness:
  "export_historical_data db_compare 1 (Some (mk_datetime 2026 1 10 8 0 0 0))
      (Some (mk_datetime 2026 1 10 8 0 0 0))
     = [\<lparr>h_id = 3, h_recorded_at = ''2026-01-10 08:00:00'', h_temperature = Some 12,
         h_humidity = Some 60, h_pressure = Some 1020, h_weather_main = Some ''Clouds''\<rparr>]"
proof -
  let ?t = "mk_datetime 2026 1 10 8 0 0 0"
  let ?r = "reading 3 (Some 12) (Some 60) (Some 1020) (Some ''Clouds'') ?t"
  have f: "filter (\<lambda>x. city_id x = 1 \<and> recorded_at x = ?t) (weather_records db_compare) = [?r]"
    by (simp add: db_compare_def reading_def mk_datetime_def)
  have s: "strftime_datetime ?t = ''2026-01-10 08:00:00''"
    by code_simp
  have e: "export_row ?r =
     \<lparr>h_id = 3, h_recorded_at = strftime_datetime ?t, h_temperature = Some 12,
      h_humidity = Some 60, h_pressure = Some 1020, h_weather_main = Some ''Clouds''\<rparr>"
    by (simp add: export_row_def reading_def)
  have x: "export_historical_data db_compare 1 (Some ?t) (Some ?t) = [export_row ?r]"
    using C2_export [of db_compare 1 "Some ?t" "Some ?t" ?r ?t ?t] f by blast
  show ?thesis
    by (simp only: x e s)
qed

section \<open>Trend analysis\<close>















text \<open>
  The comparison and the rounding act on floats. The doubles nearest to 0.6 and 1.1
  differ by a little more than 0.5: the direction is \<open>increasing\<close> and the change
  reported is 0.5. The doubles nearest to 0.3 and 0.8 differ by 0.5 and half a unit
  in the last place, which the subtraction rounds to 0.5: the direction is
  \<open>stable\<close>.
\<close>

lemma fl_tenths:
  "fl (3 / 5) = 5404319552844595 / 9007199254740992"
  "fl (11 / 10) = 2476979795053773 / 2251799813685248"
  "fl (3 / 10) = 5404319552844595 / 18014398509481984"
  "fl (4 / 5) = 3602879701896397 / 4503599627370496"
  by (simp_all add: pow2_def fl_pos [where e = "- 1"] fl_pos [where e = 0] fl_pos [where e = "- 2"]
      round_half_even_near [where m = 5404319552844595]
      round_half_even_near [where m = 4953959590107546]
      round_half_even_near [where m = 7205759403792794])

lemma fl_of_tenths:
  "fl (5404319552844595 / 9007199254740992) = 5404319552844595 / 9007199254740992"
  "fl (2476979795053773 / 2251799813685248) = 2476979795053773 / 2251799813685248"
  "fl (5404319552844595 / 18014398509481984) = 5404319552844595 / 18014398509481984"
  "fl (3602879701896397 / 4503599627370496) = 3602879701896397 / 4503599627370496"
  by (simp_all add: pow2_def fl_pos [where e = "- 1"] fl_pos [where e = 0] fl_pos [where e = "- 2"]
      round_half_even_numeral)

lemma change_of_tenths:
  "temp_change sequential [fl (3 / 5), fl (11 / 10)] = 4503599627370497 / 9007199254740992"
  "temp_change sequential [fl (3 / 10), fl (4 / 5)] = 1 / 2"
  by (simp_all add: temp_change_def first_half_def second_half_def mean_or_zero_def
      sequential_def sequential_sum_def fl_tenths fl_of_tenths pow2_def
      fl_pos [where e = "- 1"] round_half_even_numeral
      round_half_even_tie_down [where m = 4503599627370496])

lemma trend_of_tenths:
  "direction (temp_change sequential [fl (3 / 5), fl (11 / 10)]) = ''increasing''"
  "py_round2 (temp_change sequential [fl (3 / 5), fl (11 / 10)]) = 1 / 2"
  "direction (temp_change sequential [fl (3 / 10), fl (4 / 5)]) = ''stable''"
  "py_round2 (temp_change sequential [fl (3 / 10), fl (4 / 5)]) = 1 / 2"
  by (simp_all add: change_of_tenths direction_def py_round2_eq [where k = 50]
      round_half_even_near [where m = 50] round_half_even_numeral fl_small)

section \<open>Daily average\<close>















section \<open>Ingestion\<close>

lemma fetch_and_save_except_kinds:
  "(\<exists>m. fetch_and_save_except e = ValidationError m) \<or> (\<exists>m. fetch_and_save_except e = ExternalAPIError m)"
  by (cases e) simp_all

lemma fetch_failure:
  "fetch_weather_from_api api_key outcome city_name = Inl e \<Longrightarrow>
   fetch_and_save_weather api_key outcome st now db city_name = Inl (fetch_and_save_except e)"
  by (simp add: fetch_and_save_weather_def fetch_and_save_try_def)

lemma fetch_configured:
  "api_key \<noteq> None \<Longrightarrow> api_key \<noteq> Some [] \<Longrightarrow> fetch_try outcome city_name = Inl e \<Longrightarrow>
   fetch_weather_from_api api_key outcome city_name = Inl (fetch_except e)"
  by (cases api_key) (simp_all add: fetch_weather_from_api_def)

lemma raise_for_status_4xx_5xx:
  "400 \<le> status_code r \<Longrightarrow> status_code r < 600 \<Longrightarrow> \<exists>m. raise_for_status r = Inl (RequestException m)"
  by (simp add: raise_for_status_def)

text \<open>
  Claim C4, as amended. With the API key configured, \<open>fetch_and_save_weather\<close> raises
  \<open>ValidationError\<close> for a response with status 404; it raises
  \<open>ExternalAPIError\<close> for status 401, for a timeout, for a connection failure, for
  every other status from 400 to 599, and for a JSON object without the member
  \<open>main\<close> or without the member \<open>weather\<close> sent with a status that
  \<open>raise_for_status\<close> lets pass. Without the key it raises \<open>ExternalAPIError\<close>.
  Whatever the provider and the storage do, it returns the saved record or raises one
  of these two kinds: every other exception of the \<open>Exception\<close> hierarchy is wrapped
  into \<open>ExternalAPIError\<close>.
\<close>

theorem C4_error_kinds:
  "(api_key \<noteq> None \<and> api_key \<noteq> Some [] \<and> outcome = Responds r \<and> status_code r = 404 \<longrightarrow>
      fetch_and_save_weather api_key outcome st now db city_name
        = Inl (ValidationError (''City '' @ quote city_name @ '' not found. Please check the city name.'')))
   \<and> (api_key \<noteq> None \<and> api_key \<noteq> Some [] \<and> outcome = Responds r \<and> status_code r = 401 \<longrightarrow>
      fetch_and_save_weather api_key outcome st now db city_name
        = Inl (ExternalAPIError ''Invalid OpenWeather API key''))
   \<and> (api_key \<noteq> None \<and> api_key \<noteq> Some [] \<and> outcome = Raises (Timeout m) \<longrightarrow>
      fetch_and_save_weather api_key outcome st now db city_name
        = Inl (ExternalAPIError ''Weather API request timed out. Please try again later.''))
   \<and> (api_key \<noteq> None \<and> api_key \<noteq> Some [] \<and> outcome = Raises (ConnectionError m) \<longrightarrow>
      fetch_and_save_weather api_key outcome st now db city_name
        = Inl (ExternalAPIError ''Failed to connect to weather API. Please check your internet connection.''))
   \<and> (api_key \<noteq> None \<and> api_key \<noteq> Some [] \<and> outcome = Responds r
        \<and> 400 \<le> status_code r \<and> status_code r < 600 \<and> status_code r \<noteq> 404 \<and> status_code r \<noteq> 401 \<longrightarrow>
      (\<exists>msg. fetch_and_save_weather api_key outcome st now db city_name = Inl (ExternalAPIError msg)))
   \<and> (api_key \<noteq> None \<and> api_key \<noteq> Some [] \<and> outcome = Responds r
        \<and> raise_for_status r = Inr () \<and> json_body r = Inr (JObj kvs)
        \<and> \<not> (''main'' \<in> fst ` set kvs \<and> ''weather'' \<in> fst ` set kvs) \<longrightarrow>
      fetch_and_save_weather api_key outcome st now db city_name
        = Inl (ExternalAPIError ''Invalid response from weather API''))
   \<and> (api_key = None \<or> api_key = Some [] \<longrightarrow>
      fetch_and_save_weather api_key outcome st now db city_name
        = Inl (ExternalAPIError ''OpenWeather API key is not configured''))
   \<and> ((\<exists>saved. fetch_and_save_weather api_key outcome st now db city_name = Inr saved)
        \<or> (\<exists>msg. fetch_and_save_weather api_key outcome st now db city_name = Inl (ValidationError msg))
        \<or> (\<exists>msg. fetch_and_save_weather api_key outcome st now db city_name = Inl (ExternalAPIError msg)))"
proof (intro conjI impI)
  assume h: "api_key \<noteq> None \<and> api_key \<noteq> Some [] \<and> outcome = Responds r \<and> status_code r = 404"
  then have "fetch_try outcome city_name
      = Inl (ValidationError (''City '' @ quote city_name @ '' not found. Please check the city name.''))"
    by (simp add: fetch_try_def)
  with h show "fetch_and_save_weather api_key outcome st now db city_name
        = Inl (ValidationError (''City '' @ quote city_name @ '' not found. Please check the city name.''))"
    using fetch_failure [OF fetch_configured] by fastforce
next
  assume h: "api_key \<noteq> None \<and> api_key \<noteq> Some [] \<and> outcome = Responds r \<and> status_code r = 401"
  then have "fetch_try outcome city_name = Inl (ExternalAPIError ''Invalid OpenWeather API key'')"
    by (simp add: fetch_try_def)
  with h show "fetch_and_save_weather api_key outcome st now db city_name
        = Inl (ExternalAPIError ''Invalid OpenWeather API key'')"
    using fetch_failure [OF fetch_configured] by fastforce
next
  assume h: "api_key \<noteq> None \<and> api_key \<noteq> Some [] \<and> outcome = Raises (Timeout m)"
  then have "fetch_try outcome city_name = Inl (Timeout m)"
    by (simp add: fetch_try_def)
  with h show "fetch_and_save_weather api_key outcome st now db city_name
        = Inl (ExternalAPIError ''Weather API request timed out. Please try again later.'')"
    using fetch_failure [OF fetch_configured] by fastforce
next
  assume h: "api_key \<noteq> None \<and> api_key \<noteq> Some [] \<and> outcome = Raises (ConnectionError m)"
  then have "fetch_try outcome city_name = Inl (ConnectionError m)"
    by (simp add: fetch_try_def)
  with h show "fetch_and_save_weather api_key outcome st now db city_name
        = Inl (ExternalAPIError ''Failed to connect to weather API. Please check your internet connection.'')"
    using fetch_failure [OF fetch_configured] by fastforce
next
  assume h: "api_key \<noteq> None \<and> api_key \<noteq> Some [] \<and> outcome = Responds r
        \<and> 400 \<le> status_code r \<and> status_code r < 600 \<and> status_code r \<noteq> 404 \<and> status_code r \<noteq> 401"
  then obtain x where "raise_for_status r = Inl (RequestException x)"
    using raise_for_status_4xx_5xx by blast
  with h have "fetch_try outcome city_name = Inl (RequestException x)"
    by (simp add: fetch_try_def)
  with h have "fetch_and_save_weather api_key outcome st now db city_name
        = Inl (ExternalAPIError (''Failed to fetch weather data: '' @ x))"
    using fetch_failure [OF fetch_configured] by fastforce
  then show "\<exists>msg. fetch_and_save_weather api_key outcome st now db city_name = Inl (ExternalAPIError msg)"
    by blast
next
  assume h: "api_key \<noteq> None \<and> api_key \<noteq> Some [] \<and> outcome = Responds r
        \<and> raise_for_status r = Inr () \<and> json_body r = Inr (JObj kvs)
        \<and> \<not> (''main'' \<in> fst ` set kvs \<and> ''weather'' \<in> fst ` set kvs)"
  then have s: "status_code r \<noteq> 404 \<and> status_code r \<noteq> 401"
    by (auto simp: raise_for_status_def split: if_splits)
  from h s have "fetch_try outcome city_name = Inl (ExternalAPIError ''Invalid response from weather API'')"
    by (auto simp: fetch_try_def)
  with h show "fetch_and_save_weather api_key outcome st now db city_name
        = Inl (ExternalAPIError ''Invalid response from weather API'')"
    using fetch_failure [OF fetch_configured] by fastforce
next
  assume "api_key = None \<or> api_key = Some []"
  then have "fetch_weather_from_api api_key outcome city_name
      = Inl (ExternalAPIError ''OpenWeather API key is not configured'')"
    by (auto simp: fetch_weather_from_api_def)
  then show "fetch_and_save_weather api_key outcome st now db city_name
        = Inl (ExternalAPIError ''OpenWeather API key is not configured'')"
    using fetch_failure by fastforce
next
  show "(\<exists>saved. fetch_and_save_weather api_key outcome st now db city_name = Inr saved)
        \<or> (\<exists>msg. fetch_and_save_weather api_key outcome st now db city_name = Inl (ValidationError msg))
        \<or> (\<exists>msg. fetch_and_save_weather api_key outcome st now db city_name = Inl (ExternalAPIError msg))"
  proof (cases "fetch_and_save_try api_key outcome st now db city_name")
    case (Inl e)
    then have "fetch_and_save_weather api_key outcome st now db city_name = Inl (fetch_and_save_except e)"
      by (simp add: fetch_and_save_weather_def)
    then show ?thesis
      using fetch_and_save_except_kinds [of e] by auto
  next
    case (Inr saved)
    then show ?thesis
      by (simp add: fetch_and_save_weather_def)
  qed
qed

text \<open>The amended claim at a configured key: a 404, a 401, a 503, a timeout, a refused
  connection, and a status 200 whose JSON object lacks \<open>weather\<close>.\<close>

theorem C4_witness:
  "fetch_and_save_weather (Some ''k'') (respond 404 ''Not Found'' (Inr JNull)) strict_storage noon_20th
       db_empty ''Atlantis''
     = Inl (ValidationError (''City '' @ quote ''Atlantis'' @ '' not found. Please check the city name.''))
   \<and> fetch_and_save_weather (Some ''k'') (respond 401 ''Unauthorized'' (Inr JNull)) strict_storage noon_20th
       db_empty ''Tokyo''
     = Inl (ExternalAPIError ''Invalid OpenWeather API key'')
   \<and> (\<exists>msg. fetch_and_save_weather (Some ''k'') (respond 503 ''Service Unavailable'' (Inr JNull))
               strict_storage noon_20th db_empty ''Tokyo''
             = Inl (ExternalAPIError msg))
   \<and> fetch_and_save_weather (Some ''k'') (Raises (Timeout ''read timed out'')) strict_storage noon_20th
       db_empty ''Tokyo''
     = Inl (ExternalAPIError ''Weather API request timed out. Please try again later.'')
   \<and> fetch_and_save_weather (Some ''k'') (Raises (ConnectionError ''refused'')) strict_storage noon_20th
       db_empty ''Tokyo''
     = Inl (ExternalAPIError ''Failed to connect to weather API. Please check your internet connection.'')
   \<and> fetch_and_save_weather (Some ''k'') (respond 200 ''OK'' (Inr (JObj [(''main'', JObj [])])))
       strict_storage noon_20th db_empty ''Tokyo''
     = Inl (ExternalAPIError ''Invalid response from weather API'')"
proof -
  let ?url = "''https://api.openweathermap.org/data/2.5/weather''"
  have k: "Some ''k'' \<noteq> None \<and> Some ''k'' \<noteq> Some []"
    by simp
  have 1: "fetch_and_save_weather (Some ''k'') (respond 404 ''Not Found'' (Inr JNull)) strict_storage noon_20th
       db_empty ''Atlantis''
     = Inl (ValidationError (''City '' @ quote ''Atlantis'' @ '' not found. Please check the city name.''))"
    using C4_error_kinds [of "Some ''k''" "respond 404 ''Not Found'' (Inr JNull)"
        "\<lparr>status_code = 404, reason = ''Not Found'', url = ?url, json_body = Inr JNull\<rparr>"
        strict_storage noon_20th db_empty "''Atlantis''"] k
    by (simp add: respond_def)
  have 2: "fetch_and_save_weather (Some ''k'') (respond 401 ''Unauthorized'' (Inr JNull)) strict_storage noon_20th
       db_empty ''Tokyo''
     = Inl (ExternalAPIError ''Invalid OpenWeather API key'')"
    using C4_error_kinds [of "Some ''k''" "respond 401 ''Unauthorized'' (Inr JNull)"
        "\<lparr>status_code = 401, reason = ''Unauthorized'', url = ?url, json_body = Inr JNull\<rparr>"
        strict_storage noon_20th db_empty "''Tokyo''"] k
    by (simp add: respond_def)
  have 3: "\<exists>msg. fetch_and_save_weather (Some ''k'') (respond 503 ''Service Unavailable'' (Inr JNull))
               strict_storage noon_20th db_empty ''Tokyo''
             = Inl (ExternalAPIError msg)"
    using C4_error_kinds [of "Some ''k''" "respond 503 ''Service Unavailable'' (Inr JNull)"
        "\<lparr>status_code = 503, reason = ''Service Unavailable'', url = ?url, json_body = Inr JNull\<rparr>"
        strict_storage noon_20th db_empty "''Tokyo''"] k
    by (simp add: respond_def)
  have 4: "fetch_and_save_weather (Some ''k'') (Raises (Timeout ''read timed out'')) strict_storage noon_20th
       db_empty ''Tokyo''
     = Inl (ExternalAPIError ''Weather API request timed out. Please try again later.'')"
    using C4_error_kinds [of "Some ''k''" "Raises (Timeout ''read timed out'')" _
        strict_storage noon_20th db_empty "''Tokyo''" "''read timed out''"] k
    by simp
  have 5: "fetch_and_save_weather (Some ''k'') (Raises (ConnectionError ''refused'')) strict_storage noon_20th
       db_empty ''Tokyo''
     = Inl (ExternalAPIError ''Failed to connect to weather API. Please check your internet connection.'')"
    using C4_error_kinds [of "Some ''k''" "Raises (ConnectionError ''refused'')" _
        strict_storage noon_20th db_empty "''Tokyo''" "''refused''"] k
    by simp
  have 6: "fetch_and_save_weather (Some ''k'') (respond 200 ''OK'' (Inr (JObj [(''main'', JObj [])])))
       strict_storage noon_20th db_empty ''Tokyo''
     = Inl (ExternalAPIError ''Invalid response from weather API'')"
    using C4_error_kinds [of "Some ''k''" "respond 200 ''OK'' (Inr (JObj [(''main'', JObj [])]))"
        "\<lparr>status_code = 200, reason = ''OK'', url = ?url, json_body = Inr (JObj [(''main'', JObj [])])\<rparr>"
        strict_storage noon_20th db_empty "''Tokyo''" _ "[(''main'', JObj [])]"] k
    by (simp add: respond_def raise_for_status_def)
  from 1 2 3 4 5 6 show ?thesis by blast
qed

lemma fetch_status_300:
  "fetch_weather_from_api (Some ''k'') (respond 300 ''Multiple Choices'' (Inr tokyo_payload)) ''Tokyo''
     = Inr tokyo_payload"
  by (simp add: fetch_weather_from_api_def fetch_try_def respond_def raise_for_status_def
      tokyo_payload_def)

lemma create_tokyo:
  "get_or_create_city strict_storage noon_20th db_empty (JStr ''Tokyo'') (JFloat (357 / 10))
       (JFloat (1397 / 10)) (JStr ''JP'')
     = Inr (\<lparr>cities = [\<lparr>cid = 1, name = ''Tokyo'', country = Some ''JP'', lat = Some (357 / 10),
                          lon = Some (1397 / 10), created_at = noon_20th\<rparr>],
              weather_records = []\<rparr>,
            \<lparr>cid = 1, name = ''Tokyo'', country = Some ''JP'', lat = Some (357 / 10),
              lon = Some (1397 / 10), created_at = noon_20th\<rparr>)"
  by (simp add: get_or_create_city_def strict_storage_def db_empty_def next_id_def Let_def)

lemma save_tokyo:
  "save_weather_record strict_storage noon_20th
       \<lparr>cities = cs, weather_records = []\<rparr> 1 tokyo_payload
     = Inr (\<lparr>cities = cs,
              weather_records = [\<lparr>rid = 1, city_id = 1, temperature = Some (25 / 2), humidity = Some 40,
                                  pressure = Some 1010, weather_main = Some ''Clear'',
                                  recorded_at = noon_20th\<rparr>]\<rparr>,
            \<lparr>rid = 1, city_id = 1, temperature = Some (25 / 2), humidity = Some 40,
              pressure = Some 1010, weather_main = Some ''Clear'', recorded_at = noon_20th\<rparr>)"
  by (simp add: save_weather_record_def strict_storage_def tokyo_payload_def next_id_def Let_def)

text \<open>
  Claim C4 as first stated has every status outside 2xx other than 404 and 401 raise
  \<open>ExternalAPIError\<close>. A response with status 300 that carries a complete payload
  passes \<open>raise_for_status\<close>, and the reading is saved and returned.
\<close>

theorem C4_counterexample:
  "map_sum id snd
       (fetch_and_save_weather (Some ''k'') (respond 300 ''Multiple Choices'' (Inr tokyo_payload))
          strict_storage noon_20th db_empty ''Tokyo'')
     = Inr \<lparr>rid = 1, city_id = 1, temperature = Some (25 / 2), humidity = Some 40,
            pressure = Some 1010, weather_main = Some ''Clear'', recorded_at = noon_20th\<rparr>"
proof -
  have g: "py_get tokyo_payload ''name'' JNull = Inr (JStr ''Tokyo'')"
    "py_get tokyo_payload ''coord'' (JObj []) = Inr (JObj [(''lon'', JFloat (1397 / 10)), (''lat'', JFloat (357 / 10))])"
    "py_get tokyo_payload ''sys'' (JObj []) = Inr (JObj [(''country'', JStr ''JP'')])"
    by (simp_all add: tokyo_payload_def)
  have t: "fetch_and_save_try (Some ''k'') (respond 300 ''Multiple Choices'' (Inr tokyo_payload))
          strict_storage noon_20th db_empty ''Tokyo''
     = save_weather_record strict_storage noon_20th
         \<lparr>cities = [\<lparr>cid = 1, name = ''Tokyo'', country = Some ''JP'', lat = Some (357 / 10),
                      lon = Some (1397 / 10), created_at = noon_20th\<rparr>],
           weather_records = []\<rparr> 1 tokyo_payload"
    by (simp add: fetch_and_save_try_def fetch_status_300 g create_tokyo)
  show ?thesis
    by (simp add: fetch_and_save_weather_def t save_tokyo)
qed

section \<open>The error kind of a failed validation\<close>

lemma strptime_ymd_error: "strptime_ymd s = Inl e \<Longrightarrow> \<exists>m. e = ValueError m"
  by (auto simp: strptime_ymd_def split: option.splits prod.splits if_splits)

lemma validate_city_name_error: "validate_city_name s = Inl e \<Longrightarrow> \<exists>m. e = ValueError m"
  by (auto simp: validate_city_name_def Let_def split: if_splits)

lemma validate_date_format_error: "validate_date_format s = Inl e \<Longrightarrow> \<exists>m. e = ValueError m"
  by (auto simp: validate_date_format_def split: if_splits sum.splits error.splits
      dest: strptime_ymd_error)

lemma validate_days_error: "validate_days v lo hi = Inl e \<Longrightarrow> \<exists>m. e = ValueError m"
  by (auto simp: validate_days_def split: if_splits option.splits)

lemma validate_weeks_error: "validate_weeks v lo hi = Inl e \<Longrightarrow> \<exists>m. e = ValueError m"
  by (auto simp: validate_weeks_def split: if_splits option.splits)

lemma validate_months_error: "validate_months v lo hi = Inl e \<Longrightarrow> \<exists>m. e = ValueError m"
  by (auto simp: validate_months_def split: if_splits option.splits)

text \<open>
  Claim C1 says that a failed validation raises \<open>ValidationError\<close>. In the code every
  failure of the five validation functions is the built-in \<open>ValueError\<close>, which is
  not a \<open>ValidationError\<close>; an endpoint such as \<open>get_patterns\<close> therefore answers
  a name that fails validation with status 500, not 400. Only the loop of the
  comparison endpoint turns the \<open>ValueError\<close> into a \<open>ValidationError\<close>.
\<close>

theorem C1_failures_are_ValueError:
  "(validate_city_name s = Inl e \<longrightarrow> (\<exists>m. e = ValueError m))
   \<and> (validate_date_format s = Inl e \<longrightarrow> (\<exists>m. e = ValueError m))
   \<and> (validate_days v lo hi = Inl e \<longrightarrow> (\<exists>m. e = ValueError m))
   \<and> (validate_weeks v lo hi = Inl e \<longrightarrow> (\<exists>m. e = ValueError m))
   \<and> (validate_months v lo hi = Inl e \<longrightarrow> (\<exists>m. e = ValueError m))
   \<and> (validate_city_name s = Inl (ValueError m) \<longrightarrow>
        get_patterns db s = Inl (HTTPException 500 (''Internal server error: '' @ m))
        \<and> validate_compared_city s = Inl (ValidationError (''Invalid city name '' @ quote s @ '': '' @ m)))"
  using validate_city_name_error [of s e] validate_date_format_error [of s e]
    validate_days_error [of v lo hi e] validate_weeks_error [of v lo hi e]
    validate_months_error [of v lo hi e]
  by (auto simp: get_patterns_def validate_compared_city_def)

text \<open>The name \<open>Tokyo1\<close>, a date written day first, and counts out of range.\<close>

theorem C1_witness:
  "validate_city_name ''Tokyo1'' = Inl (ValueError ''City name contains invalid characters'')
   \<and> validate_date_format ''19-01-2026''
        = Inl (ValueError ''Invalid date format. Use YYYY-MM-DD (e.g., 2026-01-19)'')
   \<and> validate_days (PyInt 0) 1 365 = Inl (ValueError ''Days must be at least 1'')
   \<and> validate_weeks (PyInt 53) 1 52 = Inl (ValueError ''Weeks must be at most 52'')
   \<and> validate_months (PyInt 0) 1 24 = Inl (ValueError ''Months must be at least 1'')
   \<and> get_patterns db_patterns ''Tokyo1''
        = Inl (HTTPException 500 ''Internal server error: City name contains invalid characters'')
   \<and> validate_compared_city ''Tokyo1''
        = Inl (ValidationError (''Invalid city name '' @ quote ''Tokyo1''
                                 @ '': City name contains invalid characters''))"
proof -
  have c: "validate_city_name ''Tokyo1'' = Inl (ValueError ''City name contains invalid characters'')"
    by code_simp
  have d: "validate_date_format ''19-01-2026''
        = Inl (ValueError ''Invalid date format. Use YYYY-MM-DD (e.g., 2026-01-19)'')"
    by code_simp
  have n: "validate_days (PyInt 0) 1 365 = Inl (ValueError ''Days must be at least 1'')"
    by (simp add: validate_days_def str_int_1)
  have w: "validate_weeks (PyInt 53) 1 52 = Inl (ValueError ''Weeks must be at most 52'')"
    by code_simp
  have m: "validate_months (PyInt 0) 1 24 = Inl (ValueError ''Months must be at least 1'')"
    by (simp add: validate_months_def str_int_1)
  from C1_failures_are_ValueError [of "''Tokyo1''" _ _ _ _ "''City name contains invalid characters''" db_patterns] c
  have "get_patterns db_patterns ''Tokyo1''
        = Inl (HTTPException 500 (''Internal server error: '' @ ''City name contains invalid characters''))
     \<and> validate_compared_city ''Tokyo1''
        = Inl (ValidationError (''Invalid city name '' @ quote ''Tokyo1''
                                 @ '': '' @ ''City name contains invalid characters''))"
    by blast
  then show ?thesis using c d n w m by simp
qed

end
